theory Spec2Isabelle
  imports Complex_Main "HOL-Library.Multiset"
begin

section \<open>JavaScript numbers\<close>

text \<open>
  A JavaScript \<^verbatim>\<open>number\<close> is modelled as a real number or one of the three
  non-finite values. Arithmetic on finite values is exact: rounding, underflow and
  overflow of IEEE doubles are not modelled, so a score of the model is the score
  of the code only up to rounding, and a product that underflows to 0 in the code
  (the square of \<open>1e-200\<close>) is not 0 here. The entries of an embedding vector are
  finite numbers (they are read from JSON), so a vector is a \<open>real list\<close>, and the
  only places where a non-finite value can appear are the division that ends
  \<^verbatim>\<open>cosineSimilarity\<close> and the subtraction in the sort comparator. The properties
  stated of scores below are those that hold of doubles as well: a zero vector
  scores NaN, and the scores of the examples are computed exactly by doubles.
\<close>

datatype jsnum = NaN | PosInf | NegInf | Num real

text \<open>\<^verbatim>\<open>x / y\<close> on finite operands, with a non-negative divisor.\<close>

definition js_div :: "real \<Rightarrow> real \<Rightarrow> jsnum" where
  "js_div x y =
     (if y = 0 then (if x = 0 then NaN else if 0 < x then PosInf else NegInf)
      else Num (x / y))"

text \<open>\<^verbatim>\<open>x - y\<close>.\<close>

fun js_sub :: "jsnum \<Rightarrow> jsnum \<Rightarrow> jsnum" where
  "js_sub NaN y = NaN"
| "js_sub x NaN = NaN"
| "js_sub (Num x) (Num y) = Num (x - y)"
| "js_sub (Num x) PosInf = NegInf"
| "js_sub (Num x) NegInf = PosInf"
| "js_sub PosInf PosInf = NaN"
| "js_sub PosInf y = PosInf"
| "js_sub NegInf NegInf = NaN"
| "js_sub NegInf y = NegInf"

text \<open>\<^verbatim>\<open>x >= y\<close>: every comparison with NaN is false.\<close>

fun js_ge :: "jsnum \<Rightarrow> jsnum \<Rightarrow> bool" where
  "js_ge NaN y = False"
| "js_ge x NaN = False"
| "js_ge PosInf y = True"
| "js_ge x NegInf = True"
| "js_ge (Num x) (Num y) = (y \<le> x)"
| "js_ge (Num x) PosInf = False"
| "js_ge NegInf y = False"

section \<open>Array.prototype.sort and slice\<close>

text \<open>
  The value a comparator returns is used by \<^verbatim>\<open>sort\<close> through its sign, and a
  NaN result counts as \<open>+0\<close>: \<open>cmp_positive v\<close> says that the first argument has
  to go after the second.
\<close>

fun cmp_positive :: "jsnum \<Rightarrow> bool" where
  "cmp_positive NaN = False"
| "cmp_positive PosInf = True"
| "cmp_positive NegInf = False"
| "cmp_positive (Num v) = (0 < v)"

text \<open>
  \<^verbatim>\<open>xs.sort(cmp)\<close>. ECMAScript requires the sort to be stable; for a comparator
  that orders the elements consistently the result is then unique, and it is what
  the stable insertion below computes. Where the comparator is not consistent (it
  is not when a score is NaN) the order is left to the engine, and on longer arrays
  the engine's order can differ from the one computed here. Apart from the example
  with three scores, on which the engine moves nothing either, the properties
  below use only that the sorted array has the elements of the array.
\<close>

fun insert_sorted :: "('a \<Rightarrow> 'a \<Rightarrow> jsnum) \<Rightarrow> 'a \<Rightarrow> 'a list \<Rightarrow> 'a list" where
  "insert_sorted cmp x [] = [x]"
| "insert_sorted cmp x (y # ys) =
     (if cmp_positive (cmp x y) then y # insert_sorted cmp x ys else x # y # ys)"

definition array_sort :: "('a \<Rightarrow> 'a \<Rightarrow> jsnum) \<Rightarrow> 'a list \<Rightarrow> 'a list" where
  "array_sort cmp xs = foldr (insert_sorted cmp) xs []"

text \<open>
  \<^verbatim>\<open>xs.slice(0, k)\<close> for a count \<open>k\<close>. The callers pass a result limit (the
  defaults are 10 and 50), so \<open>k\<close> is a natural number; a negative or fractional
  \<open>k\<close> is not modelled.
\<close>

definition slice0 :: "nat \<Rightarrow> 'a list \<Rightarrow> 'a list" where
  "slice0 k xs = take k xs"

section \<open>Strings\<close>

text \<open>
  \<^verbatim>\<open>s.trim()\<close> over the ASCII white space characters (tab, line feed, vertical
  tab, form feed, carriage return, space). The other white space that \<^verbatim>\<open>trim\<close>
  strips (U+00A0, U+FEFF, the Unicode spaces and line separators) has no character
  in a \<open>string\<close>, so a text that is blank only by such characters is not blank
  here.
\<close>

definition is_space :: "char \<Rightarrow> bool" where
  "is_space c = (c \<in> set [CHR 0x09, CHR 0x0A, CHR 0x0B, CHR 0x0C, CHR 0x0D, CHR 0x20])"

definition trim :: "string \<Rightarrow> string" where
  "trim s = rev (dropWhile is_space (rev (dropWhile is_space s)))"

text \<open>A number in a template string: its decimal digits.\<close>

fun decimal :: "nat \<Rightarrow> string" where
  "decimal n = (if 10 \<le> n then decimal (n div 10) else []) @ [char_of (n mod 10 + 48)]"

declare decimal.simps [simp del]

text \<open>
  The keys of an object that are array indices: decimal digits with no leading
  zero, below \<open>2\<^sup>3\<^sup>2 - 1\<close>. \<^verbatim>\<open>Object.entries\<close> lists them first, in ascending
  order, and the other keys after them in the order of their creation.
\<close>

definition is_digit :: "char \<Rightarrow> bool" where
  "is_digit c = (c \<in> set ''0123456789'')"

definition decimal_value :: "string \<Rightarrow> nat" where
  "decimal_value s = foldl (\<lambda>n c. 10 * n + (of_char c - 48)) 0 s"

definition array_index :: "string \<Rightarrow> nat option" where
  "array_index s =
     (if s \<noteq> [] \<and> list_all is_digit s \<and> (if take 1 s = ''0'' then s = ''0'' else True) \<and>
         decimal_value s < 4294967295
      then Some (decimal_value s) else None)"

definition object_entries :: "(string \<times> 'v) list \<Rightarrow> (string \<times> 'v) list" where
  "object_entries m =
     sort_key (\<lambda>kv. the (array_index (fst kv))) (filter (\<lambda>kv. array_index (fst kv) \<noteq> None) m)
     @ filter (\<lambda>kv. array_index (fst kv) = None) m"

section \<open>The outside world\<close>

datatype error = Error string

text \<open>The bytes of an image file, as \<^verbatim>\<open>Image.fromBase64\<close> receives them.\<close>

type_synonym image = string

text \<open>The answer to the POST to the embeddings endpoint: a failed request, a status
  that is not ok, or a JSON body whose \<^verbatim>\<open>data\<close> member is an array of objects with an
  \<^verbatim>\<open>embedding\<close> member (\<open>None\<close> where the member is not an array).\<close>

datatype response =
    FetchFailed error
  | NotOk nat string
  | Body "real list option list option"

text \<open>What \<^verbatim>\<open>b.ExtractAllText\<close> resolves to, typed \<^verbatim>\<open>any\<close>: an object with a
  \<^verbatim>\<open>text\<close> member (its text and confidence, where they are there), a bare string, or
  anything else.\<close>

datatype ocr_raw =
    OcrObject "string option" "real option"
  | OcrString string
  | OcrOther

record ContentAnalysis =
  ca_content_type :: string
  ca_app_detected :: "string option"
  ca_url_detected :: "string option"

text \<open>
  Everything the modelled code calls and does not define: the file system, the
  embeddings endpoint, the functions of the BAML client (a string result is
  \<open>Some\<close>, any other value \<open>None\<close>), and the three local heuristics of the pipeline
  whose bodies no property below depends on.
\<close>

record env =
  readFileSync :: "string \<Rightarrow> error + image"
  existsSync :: "string \<Rightarrow> error + bool"
  writeFails :: "error option"
  fetch :: "string \<Rightarrow> response"
  ExtractAllText :: "image \<Rightarrow> error + ocr_raw"
  GenerateScreenshotTitle :: "image \<Rightarrow> string \<Rightarrow> error + string option"
  AnalyzeScreenshotContentDetailed :: "image \<Rightarrow> string \<Rightarrow> error + string option"
  AnalyzeScreenshotContent :: "image \<Rightarrow> error + ContentAnalysis"
  GenerateComprehensiveDescription ::
    "image \<Rightarrow> string \<Rightarrow> string option \<Rightarrow> string list option \<Rightarrow> error + string option"
  generateTitleHeuristic :: "string \<Rightarrow> string"
  describeHeuristic :: "string \<Rightarrow> string"
  extractKeywords :: "string \<Rightarrow> string list"

text \<open>An environment in which no file exists and every remote call fails.\<close>

definition offline :: env where
  "offline =
     \<lparr>readFileSync = (\<lambda>p. Inl (Error ''ENOENT'')),
      existsSync = (\<lambda>p. Inr False),
      writeFails = None,
      fetch = (\<lambda>t. FetchFailed (Error ''fetch failed'')),
      ExtractAllText = (\<lambda>i. Inl (Error ''offline'')),
      GenerateScreenshotTitle = (\<lambda>i t. Inl (Error ''offline'')),
      AnalyzeScreenshotContentDetailed = (\<lambda>i t. Inl (Error ''offline'')),
      AnalyzeScreenshotContent = (\<lambda>i. Inl (Error ''offline'')),
      GenerateComprehensiveDescription = (\<lambda>i t ti kw. Inl (Error ''offline'')),
      generateTitleHeuristic = (\<lambda>t. ''Screenshot''),
      describeHeuristic = (\<lambda>t. ''Screenshot''),
      extractKeywords = (\<lambda>t. [])\<rparr>"

text \<open>A string that JavaScript takes as true: present and not empty.\<close>

fun truthy :: "string option \<Rightarrow> bool" where
  "truthy None = False"
| "truthy (Some s) = (s \<noteq> [])"

fun join :: "string \<Rightarrow> string list \<Rightarrow> string" where
  "join sep [] = []"
| "join sep [x] = x"
| "join sep (x # y # ys) = x @ sep @ join sep (y # ys)"

section \<open>The embedding store (OpenAIEmbeddingService)\<close>

text \<open>The \<^verbatim>\<open>metadata\<close> argument of \<^verbatim>\<open>addImage\<close>: the members the service reads.\<close>

record metadata_in =
  md_comprehensive_description :: "string option"
  md_ocr_text :: "string option"
  md_ai_title :: "string option"
  md_ai_description :: "string option"
  md_keywords :: "string list option"

datatype item_type = ImageItem | TextItem

record IndexedItem =
  item_id :: string
  path :: string
  itype :: item_type
  metadata :: "metadata_in option"
  embedding :: "real list option"
  content :: "string option"

record SearchResult =
  sr_id :: string
  score :: jsnum
  item :: IndexedItem

datatype event =
    CallEmbeddings string
  | CallGenerateComprehensiveDescription image

text \<open>
  The service: \<open>items\<close> is the \<^verbatim>\<open>Map\<close>, kept in insertion order; \<open>metadataFile\<close> is
  the \<^verbatim>\<open>items\<close> member of the document at \<^verbatim>\<open>metadataPath\<close> (\<open>None\<close>: no file);
  \<open>calls\<close> records the remote calls the service has made.
\<close>

record store =
  items :: "(string \<times> IndexedItem) list"
  metadataFile :: "(string \<times> IndexedItem) list option"
  apiKey :: string
  calls :: "event list"

definition map_has :: "'k \<Rightarrow> ('k \<times> 'v) list \<Rightarrow> bool" where
  "map_has k m = (k \<in> set (map fst m))"

fun map_set :: "'k \<Rightarrow> 'v \<Rightarrow> ('k \<times> 'v) list \<Rightarrow> ('k \<times> 'v) list" where
  "map_set k v [] = [(k, v)]"
| "map_set k v ((k', v') # m) = (if k' = k then (k, v) # m else (k', v') # map_set k v m)"

definition map_delete :: "'k \<Rightarrow> ('k \<times> 'v) list \<Rightarrow> ('k \<times> 'v) list" where
  "map_delete k m = filter (\<lambda>kv. fst kv \<noteq> k) m"

subsection \<open>cosineSimilarity\<close>

fun cosine_loop :: "real list \<Rightarrow> real list \<Rightarrow> real \<times> real \<times> real \<Rightarrow> real \<times> real \<times> real" where
  "cosine_loop (x # xs) (y # ys) (dotProduct, normA, normB) =
     cosine_loop xs ys (dotProduct + x * y, normA + x * x, normB + y * y)"
| "cosine_loop xs ys acc = acc"

definition cosineSimilarity :: "real list \<Rightarrow> real list \<Rightarrow> error + jsnum" where
  "cosineSimilarity a b =
     (if length a \<noteq> length b then Inl (Error ''Vectors must have the same length'')
      else (case cosine_loop a b (0, 0, 0) of
              (dotProduct, normA, normB) \<Rightarrow> Inr (js_div dotProduct (sqrt normA * sqrt normB))))"

subsection \<open>createEmbedding\<close>

text \<open>
  The text sent is cut to 8000 characters. \<open>FetchFailed\<close> stands for any throw of
  the request or of the reading of its body.
\<close>

definition createEmbedding :: "env \<Rightarrow> store \<Rightarrow> string \<Rightarrow> (error + real list) \<times> store" where
  "createEmbedding w st txt =
     (if apiKey st = [] then (Inl (Error ''OpenAI API key not configured''), st)
      else if txt = [] \<or> trim txt = [] then (Inl (Error ''Empty text provided for embedding''), st)
      else
        let limitedText = take 8000 txt;
            st' = st\<lparr>calls := calls st @ [CallEmbeddings limitedText]\<rparr>
        in (case fetch w limitedText of
              FetchFailed e \<Rightarrow> (Inl e, st')
            | NotOk status errorText \<Rightarrow>
                (Inl (Error (''OpenAI Embedding API error: '' @ decimal status @ '' - ''
                             @ errorText)), st')
            | Body None \<Rightarrow> (Inl (Error ''Invalid embedding response from OpenAI API''), st')
            | Body (Some []) \<Rightarrow> (Inl (Error ''Invalid embedding response from OpenAI API''), st')
            | Body (Some (None # ds)) \<Rightarrow> (Inl (Error ''Invalid embedding array from OpenAI API''), st')
            | Body (Some (Some [] # ds)) \<Rightarrow> (Inl (Error ''Invalid embedding array from OpenAI API''), st')
            | Body (Some (Some (v # vs) # ds)) \<Rightarrow> (Inr (v # vs), st')))"

subsection \<open>searchByText\<close>

text \<open>The loop over the map: an item without an embedding is skipped, a throw ends the loop.\<close>

fun score_items :: "real list \<Rightarrow> (string \<times> IndexedItem) list \<Rightarrow> error + SearchResult list" where
  "score_items q [] = Inr []"
| "score_items q ((k, it) # rest) =
     (case embedding it of
        None \<Rightarrow> score_items q rest
      | Some e \<Rightarrow>
          (case cosineSimilarity q e of
             Inl err \<Rightarrow> Inl err
           | Inr similarity \<Rightarrow>
               (case score_items q rest of
                  Inl err \<Rightarrow> Inl err
                | Inr results \<Rightarrow> Inr (\<lparr>sr_id = k, score = similarity, item = it\<rparr> # results))))"

text \<open>The comparator \<^verbatim>\<open>(a, b) => b.score - a.score\<close>.\<close>

definition by_score :: "SearchResult \<Rightarrow> SearchResult \<Rightarrow> jsnum" where
  "by_score a b = js_sub (score b) (score a)"

text \<open>
  Every error raised inside the \<^verbatim>\<open>try\<close> block is caught and logged, and the call
  returns the empty array.
\<close>

definition searchByText :: "env \<Rightarrow> store \<Rightarrow> string \<Rightarrow> nat \<Rightarrow> (error + SearchResult list) \<times> store" where
  "searchByText w st query k =
     (if items st = [] then (Inr [], st)
      else (case createEmbedding w st query of
              (Inl err, st') \<Rightarrow> (Inr [], st')
            | (Inr queryEmbedding, st') \<Rightarrow>
                (case score_items queryEmbedding (items st') of
                   Inl err \<Rightarrow> (Inr [], st')
                 | Inr results \<Rightarrow> (Inr (slice0 k (array_sort by_score results)), st'))))"

text \<open>Entries in descending order of score, with the comparison of JavaScript.\<close>

definition sorted_by_score_desc :: "SearchResult list \<Rightarrow> bool" where
  "sorted_by_score_desc rs = sorted_wrt (\<lambda>a b. js_ge (score a) (score b)) rs"

subsection \<open>generateComprehensiveDescription\<close>

text \<open>\<^verbatim>\<open>metadata?.f\<close> for a string member \<open>f\<close>.\<close>

definition opt_member :: "(metadata_in \<Rightarrow> 'a option) \<Rightarrow> metadata_in option \<Rightarrow> 'a option" where
  "opt_member f md = (case md of None \<Rightarrow> None | Some m \<Rightarrow> f m)"

definition or_else :: "string option \<Rightarrow> string \<Rightarrow> string" where
  "or_else v d = (if truthy v then the v else d)"

definition or_null :: "string option \<Rightarrow> string option" where
  "or_null v = (if truthy v then v else None)"

text \<open>The text built when the client returns nothing usable.\<close>

definition fallback_combined :: "metadata_in option \<Rightarrow> string" where
  "fallback_combined md =
     or_else (opt_member md_ai_description md) ''Screenshot''
     @ (if truthy (opt_member md_ocr_text md)
        then [CHR 0x0A, CHR 0x0A] @ ''Text Content: '' @ the (opt_member md_ocr_text md) else [])
     @ (if truthy (opt_member md_ai_title md)
        then [CHR 0x0A, CHR 0x0A] @ ''Title: '' @ the (opt_member md_ai_title md) else [])
     @ (case opt_member md_keywords md of
          None \<Rightarrow> []
        | Some kws \<Rightarrow> [CHR 0x0A, CHR 0x0A] @ ''Keywords: '' @ join '', '' kws)"

text \<open>The text built in the \<^verbatim>\<open>catch\<close> block.\<close>

definition fallback_caught :: "metadata_in option \<Rightarrow> string" where
  "fallback_caught md =
     ''Screenshot''
     @ (if truthy (opt_member md_ocr_text md) then [CHR 0x0A] @ the (opt_member md_ocr_text md) else [])
     @ (if truthy (opt_member md_ai_title md)
        then [CHR 0x0A] @ ''Title: '' @ the (opt_member md_ai_title md) else [])
     @ (if truthy (opt_member md_ai_description md)
        then [CHR 0x0A] @ the (opt_member md_ai_description md) else [])"

definition generateComprehensiveDescription ::
  "env \<Rightarrow> store \<Rightarrow> string \<Rightarrow> metadata_in option \<Rightarrow> string \<times> store" where
  "generateComprehensiveDescription w st imagePath md =
     (if truthy (opt_member md_comprehensive_description md)
      then (the (opt_member md_comprehensive_description md), st)
      else (case readFileSync w imagePath of
              Inl err \<Rightarrow> (fallback_caught md, st)
            | Inr img \<Rightarrow>
                let st' = st\<lparr>calls := calls st @ [CallGenerateComprehensiveDescription img]\<rparr>
                in (case GenerateComprehensiveDescription w img
                          (or_else (opt_member md_ocr_text md) [])
                          (or_null (opt_member md_ai_title md))
                          (opt_member md_keywords md) of
                      Inl err \<Rightarrow> (fallback_caught md, st')
                    | Inr description \<Rightarrow>
                        if truthy description then (the description, st')
                        else (fallback_combined md, st'))))"

subsection \<open>save, addImage, removeItem, purgeStaleEmbeddings\<close>

text \<open>
  \<^verbatim>\<open>save\<close> writes the whole map to a temporary file and renames it over the
  metadata file; when a file system call throws, the metadata file is as before and
  the error is thrown again.
\<close>

definition save :: "env \<Rightarrow> store \<Rightarrow> (error + unit) \<times> store" where
  "save w st =
     (case writeFails w of
        Some err \<Rightarrow> (Inl err, st)
      | None \<Rightarrow> (Inr (), st\<lparr>metadataFile := Some (items st)\<rparr>))"

definition addImage ::
  "env \<Rightarrow> store \<Rightarrow> string \<Rightarrow> string \<Rightarrow> metadata_in option \<Rightarrow> (error + unit) \<times> store" where
  "addImage w st ident imagePath md =
     (if map_has ident (items st) then (Inr (), st)
      else (case generateComprehensiveDescription w st imagePath md of
              (comprehensiveContent, st1) \<Rightarrow>
                if comprehensiveContent = [] \<or> trim comprehensiveContent = []
                then (Inl (Error (''No comprehensive content generated for image '' @ ident)), st1)
                else (case createEmbedding w st1 comprehensiveContent of
                        (Inl err, st2) \<Rightarrow> (Inl err, st2)
                      | (Inr emb, st2) \<Rightarrow>
                          if emb = []
                          then (Inl (Error (''Failed to create embedding for image '' @ ident)), st2)
                          else save w
                                 (st2\<lparr>items :=
                                    map_set ident
                                      \<lparr>item_id = ident, path = imagePath, itype = ImageItem,
                                       metadata = md, embedding = Some emb,
                                       content = Some comprehensiveContent\<rparr>
                                      (items st2)\<rparr>))))"

definition removeItem :: "store \<Rightarrow> string \<Rightarrow> store" where
  "removeItem st ident = st\<lparr>items := map_delete ident (items st)\<rparr>"

text \<open>A record is stale when it has a path and the file is gone or the check throws.\<close>

definition stale :: "env \<Rightarrow> IndexedItem \<Rightarrow> bool" where
  "stale w it =
     (path it \<noteq> [] \<and> (case existsSync w (path it) of Inl err \<Rightarrow> True | Inr there \<Rightarrow> \<not> there))"

fun purge_loop ::
  "env \<Rightarrow> (string \<times> IndexedItem) list \<Rightarrow> (string \<times> IndexedItem) list \<times> nat
   \<Rightarrow> (string \<times> IndexedItem) list \<times> nat" where
  "purge_loop w [] (m, removedCount) = (m, removedCount)"
| "purge_loop w ((k, it) # rest) (m, removedCount) =
     purge_loop w rest
       (if stale w it then (map_delete k m, Suc removedCount) else (m, removedCount))"

text \<open>An error of \<^verbatim>\<open>save\<close> is caught and logged by the purge.\<close>

definition purgeStaleEmbeddings :: "env \<Rightarrow> store \<Rightarrow> (error + unit) \<times> store" where
  "purgeStaleEmbeddings w st =
     (case purge_loop w (items st) (items st, 0) of
        (m, removedCount) \<Rightarrow>
          if 0 < removedCount then (Inr (), snd (save w (st\<lparr>items := m\<rparr>)))
          else (Inr (), st))"

text \<open>
  The constructor starts from an empty map and loads the metadata file when there
  is one: the map is built from \<^verbatim>\<open>Object.entries\<close> of the parsed \<^verbatim>\<open>items\<close> object.
  \<open>restart\<close> is a new service on the file the old one left.
\<close>

definition loadExistingData :: "store \<Rightarrow> store" where
  "loadExistingData st =
     (case metadataFile st of
        None \<Rightarrow> st
      | Some data \<Rightarrow> st\<lparr>items := object_entries data\<rparr>)"

definition restart :: "store \<Rightarrow> store" where
  "restart st =
     loadExistingData \<lparr>items = [], metadataFile = metadataFile st, apiKey = apiKey st, calls = []\<rparr>"

section \<open>The analysis pipeline (AIProcessor)\<close>

record AIAnalysisResult =
  ocr_text :: "string option"
  ai_title :: "string option"
  ai_description :: "string option"
  ai_keywords :: "string list option"
  confidence_score :: "real option"
  content_type :: "string option"
  app_detected :: "string option"
  url_detected :: "string option"
  comprehensive_description :: "string option"

record OCRResult =
  ocr :: string
  confidence :: real

text \<open>The stages of the pipeline, as entries of the trace of the stages a run invoked.\<close>

datatype stage =
    OCR
  | Title
  | Description
  | Keywords
  | Classification
  | ComprehensiveDescription

text \<open>
  \<^verbatim>\<open>extractText\<close>: \<^verbatim>\<open>result.text || ''\<close> and \<^verbatim>\<open>result.confidence || 0.8\<close> for an
  object, confidence 0.8 for a bare string, and the empty result for any other
  value and for a call that throws.
\<close>

definition extractText :: "env \<Rightarrow> image \<Rightarrow> OCRResult" where
  "extractText w img =
     (case ExtractAllText w img of
        Inl err \<Rightarrow> \<lparr>ocr = [], confidence = 0\<rparr>
      | Inr (OcrObject t c) \<Rightarrow>
          \<lparr>ocr = or_else t [],
           confidence = (case c of None \<Rightarrow> 0.8 | Some v \<Rightarrow> if v = 0 then 0.8 else v)\<rparr>
      | Inr (OcrString s) \<Rightarrow> \<lparr>ocr = s, confidence = 0.8\<rparr>
      | Inr OcrOther \<Rightarrow> \<lparr>ocr = [], confidence = 0\<rparr>)"

definition generateTitle :: "env \<Rightarrow> image \<Rightarrow> string \<Rightarrow> string" where
  "generateTitle w img ocrText =
     (case GenerateScreenshotTitle w img ocrText of
        Inl err \<Rightarrow> generateTitleHeuristic w ocrText
      | Inr titleResult \<Rightarrow>
          if truthy titleResult then take 50 (the titleResult)
          else generateTitleHeuristic w ocrText)"

definition generateDescription :: "env \<Rightarrow> image \<Rightarrow> string \<Rightarrow> string" where
  "generateDescription w img ocrText =
     (case AnalyzeScreenshotContentDetailed w img ocrText of
        Inl err \<Rightarrow> ''Screenshot''
      | Inr descriptionResult \<Rightarrow>
          if truthy descriptionResult then the descriptionResult
          else describeHeuristic w ocrText)"

text \<open>The comprehensive description of the pipeline, with its two fallback texts.\<close>

definition describeComprehensively :: "env \<Rightarrow> image \<Rightarrow> string \<Rightarrow> string \<Rightarrow> string list \<Rightarrow> string" where
  "describeComprehensively w img ocrText title kws =
     (case GenerateComprehensiveDescription w img ocrText (or_null (Some title)) (Some kws) of
        Inl err \<Rightarrow>
          or_else (Some title) ''Screenshot''
          @ (if ocrText \<noteq> [] then [CHR 0x0A] @ ocrText else [])
      | Inr comprehensiveResult \<Rightarrow>
          if truthy comprehensiveResult then the comprehensiveResult
          else or_else (Some title) ''Screenshot''
               @ (if ocrText \<noteq> [] then [CHR 0x0A, CHR 0x0A] @ ''Text content: '' @ ocrText else [])
               @ (if kws \<noteq> [] then [CHR 0x0A, CHR 0x0A] @ ''Keywords: '' @ join '', '' kws else []))"

text \<open>
  \<^verbatim>\<open>doProcessScreenshot\<close>, with the trace of the stages it invoked. A failure to
  read the image and a throw of \<^verbatim>\<open>b.AnalyzeScreenshotContent\<close> are thrown again.
\<close>

definition doProcessScreenshot :: "env \<Rightarrow> string \<Rightarrow> (error + AIAnalysisResult) \<times> stage list" where
  "doProcessScreenshot w imagePath =
     (case readFileSync w imagePath of
        Inl err \<Rightarrow> (Inl err, [])
      | Inr img \<Rightarrow>
          let ocrResult = extractText w img;
              analysisResult =
                \<lparr>ocr_text = Some (ocr ocrResult), ai_title = None, ai_description = None,
                 ai_keywords = None, confidence_score = Some (confidence ocrResult),
                 content_type = None, app_detected = None, url_detected = None,
                 comprehensive_description = None\<rparr>
          in if ocr ocrResult \<noteq> [] \<and> trim (ocr ocrResult) \<noteq> []
             then
               let titleResult = generateTitle w img (ocr ocrResult);
                   descriptionResult = generateDescription w img (ocr ocrResult);
                   keywordsResult = extractKeywords w (ocr ocrResult)
               in (case AnalyzeScreenshotContent w img of
                     Inl err \<Rightarrow> (Inl err, [OCR, Title, Description, Keywords, Classification])
                   | Inr contentAnalysis \<Rightarrow>
                       (Inr (analysisResult
                              \<lparr>ai_title := Some titleResult,
                               ai_description := Some descriptionResult,
                               ai_keywords := Some keywordsResult,
                               content_type := Some (ca_content_type contentAnalysis),
                               app_detected := or_null (ca_app_detected contentAnalysis),
                               url_detected := or_null (ca_url_detected contentAnalysis),
                               comprehensive_description :=
                                 Some (describeComprehensively w img (ocr ocrResult)
                                         titleResult keywordsResult)\<rparr>),
                        [OCR, Title, Description, Keywords, Classification, ComprehensiveDescription]))
             else (Inr analysisResult, [OCR]))"

section \<open>The metadata store (DatabaseManager)\<close>

text \<open>A row of the \<^verbatim>\<open>screenshots\<close> table; the columns not named here are carried along.\<close>

record Screenshot =
  sid :: string
  filepath :: string
  filename :: string
  created_at :: int
  is_favorite :: bool

text \<open>A row of \<^verbatim>\<open>screenshot_metadata\<close>: the columns the searches select.\<close>

record MetadataRow =
  screenshot_id :: string
  m_ocr_text :: "string option"
  m_ai_title :: "string option"
  m_ai_description :: "string option"
  m_ai_keywords :: "string option"
  m_dominant_colors :: "string option"
  m_comprehensive_description :: "string option"

record DbSearchResult =
  screenshot :: Screenshot
  result_metadata :: "MetadataRow option"
  tags :: "string list option"
  folders :: "string list option"
  relevance_score :: "jsnum option"

text \<open>
  The database: the tables the two queries read, in storage order; \<open>sql_like q v\<close>
  is the operator \<^verbatim>\<open>v LIKE '%' || q || '%'\<close> of the engine; the last three members are
  what the accessors of the same name return for a screenshot id.
\<close>

record db =
  screenshots :: "Screenshot list"
  screenshot_metadata :: "MetadataRow list"
  search_index :: "(string \<times> string) list"
  screenshot_tags :: "(string \<times> nat) list"
  sql_like :: "string \<Rightarrow> string \<Rightarrow> bool"
  hasComprehensiveDesc :: bool
  getMetadata :: "string \<Rightarrow> MetadataRow option"
  getTagsForScreenshot :: "string \<Rightarrow> string list"
  getFoldersForScreenshot :: "string \<Rightarrow> string list"

text \<open>A database with no rows, in which \<^verbatim>\<open>LIKE\<close> holds between equal strings.\<close>

definition no_rows :: db where
  "no_rows =
     \<lparr>screenshots = [], screenshot_metadata = [], search_index = [], screenshot_tags = [],
      sql_like = (\<lambda>q v. v = q), hasComprehensiveDesc = True,
      getMetadata = (\<lambda>i. None), getTagsForScreenshot = (\<lambda>i. []),
      getFoldersForScreenshot = (\<lambda>i. [])\<rparr>"

text \<open>
  \<^verbatim>\<open>ORDER BY created_at DESC\<close>. SQL leaves the order of rows with the same time
  open; the stable sort keeps them in storage order.
\<close>

definition order_newest_first :: "('a \<Rightarrow> int) \<Rightarrow> 'a list \<Rightarrow> 'a list" where
  "order_newest_first created rows = sort_key (\<lambda>r. - created r) rows"

definition getScreenshot :: "db \<Rightarrow> string \<Rightarrow> Screenshot option" where
  "getScreenshot d ident = find (\<lambda>s. sid s = ident) (screenshots d)"

text \<open>The rows a \<^verbatim>\<open>LEFT JOIN\<close> pairs with one row of the left table.\<close>

definition left_join :: "'a list \<Rightarrow> 'a option list" where
  "left_join matches = (if matches = [] then [None] else map Some matches)"

text \<open>\<^verbatim>\<open>m.col LIKE '%' || ? || '%'\<close>, which is not true on NULL.\<close>

definition col_like :: "db \<Rightarrow> string \<Rightarrow> (MetadataRow \<Rightarrow> string option) \<Rightarrow> MetadataRow option \<Rightarrow> bool" where
  "col_like d q col m =
     (case m of None \<Rightarrow> False
      | Some r \<Rightarrow> (case col r of None \<Rightarrow> False | Some v \<Rightarrow> sql_like d q v))"

text \<open>
  The columns of \<open>m\<close> that the search selects, with NULL in all of them for a
  screenshot without metadata; \<^verbatim>\<open>comprehensive_description\<close> is selected only when the
  table has the column.
\<close>

type_synonym selected_columns =
  "string option \<times> string option \<times> string option \<times> string option \<times> string option
   \<times> string option"

definition select_columns :: "db \<Rightarrow> MetadataRow option \<Rightarrow> selected_columns" where
  "select_columns d m =
     (case m of
        None \<Rightarrow> (None, None, None, None, None, None)
      | Some r \<Rightarrow>
          (m_ocr_text r, m_ai_title r, m_ai_description r, m_ai_keywords r, m_dominant_colors r,
           if hasComprehensiveDesc d then m_comprehensive_description r else None))"

text \<open>A row of the answer as a search result: the metadata are there when the OCR
  text is, and no row has a \<^verbatim>\<open>rank\<close>.\<close>

definition to_result :: "Screenshot \<times> selected_columns \<Rightarrow> DbSearchResult" where
  "to_result row =
     (case row of
        (s, ocr_text_col, ai_title_col, ai_description_col, ai_keywords_col,
         dominant_colors_col, comprehensive_description_col) \<Rightarrow>
          \<lparr>screenshot = s,
           result_metadata =
             (if truthy ocr_text_col
              then Some \<lparr>screenshot_id = sid s, m_ocr_text = ocr_text_col,
                         m_ai_title = ai_title_col, m_ai_description = ai_description_col,
                         m_ai_keywords = ai_keywords_col,
                         m_dominant_colors = dominant_colors_col,
                         m_comprehensive_description = or_null comprehensive_description_col\<rparr>
              else None),
           tags = None, folders = None, relevance_score = None\<rparr>)"

text \<open>The lexical search: the joined rows that match, distinct in the selected
  columns, newest first, at most \<open>limit\<close>.\<close>

definition searchScreenshots :: "db \<Rightarrow> string \<Rightarrow> nat \<Rightarrow> DbSearchResult list" where
  "searchScreenshots d query limit =
     (let joined =
            [(s, m, si).
               s \<leftarrow> screenshots d,
               m \<leftarrow> left_join (filter (\<lambda>m. screenshot_id m = sid s) (screenshot_metadata d)),
               si \<leftarrow> left_join (filter (\<lambda>si. fst si = sid s) (search_index d))];
          matching =
            filter (\<lambda>(s, m, si).
                sql_like d query (filename s) \<or>
                col_like d query m_ocr_text m \<or>
                col_like d query m_ai_title m \<or>
                col_like d query m_ai_description m \<or>
                (hasComprehensiveDesc d \<and> col_like d query m_comprehensive_description m) \<or>
                (case si of None \<Rightarrow> False | Some c \<Rightarrow> sql_like d query (snd c)))
              joined;
          selected = remdups (map (\<lambda>(s, m, si). (s, select_columns d m)) matching)
      in map to_result (take limit (order_newest_first (\<lambda>row. created_at (fst row)) selected)))"

subsection \<open>Smart folders\<close>

text \<open>The parsed \<^verbatim>\<open>filter_rules\<close> of a folder.\<close>

record filter_rules =
  rule_type :: "string option"
  days :: "int option"
  tagId :: "nat option"
  startDate :: "int option"
  endDate :: "int option"
  contentType :: "string option"

text \<open>\<^verbatim>\<open>v || d\<close> on a number: a missing value and 0 give \<open>d\<close>.\<close>

definition num_or :: "int option \<Rightarrow> int \<Rightarrow> int" where
  "num_or v d = (case v of None \<Rightarrow> d | Some n \<Rightarrow> if n = 0 then d else n)"

text \<open>\<open>now\<close> is \<^verbatim>\<open>Date.now()\<close>, in milliseconds like \<^verbatim>\<open>created_at\<close>.\<close>

definition getScreenshotsForSmartFolder :: "db \<Rightarrow> int \<Rightarrow> filter_rules \<Rightarrow> Screenshot list" where
  "getScreenshotsForSmartFolder d now rules =
     (if rule_type rules = Some ''all'' then order_newest_first created_at (screenshots d)
      else if rule_type rules = Some ''recent'' then
        let daysAgo = num_or (days rules) 7;
            since = now - daysAgo * 24 * 60 * 60 * 1000
        in order_newest_first created_at (filter (\<lambda>s. created_at s > since) (screenshots d))
      else if rule_type rules = Some ''favorites'' then
        order_newest_first created_at (filter is_favorite (screenshots d))
      else if rule_type rules = Some ''tag'' then
        (case tagId rules of
           None \<Rightarrow> []
         | Some t \<Rightarrow>
             if t = 0 then []
             else order_newest_first created_at
                    [s. s \<leftarrow> screenshots d, st \<leftarrow> screenshot_tags d, fst st = sid s \<and> snd st = t])
      else if rule_type rules = Some ''date_range'' then
        let startD = num_or (startDate rules) 0;
            endD = num_or (endDate rules) now
        in order_newest_first created_at
             (filter (\<lambda>s. startD \<le> created_at s \<and> created_at s \<le> endD) (screenshots d))
      else if rule_type rules = Some ''content_type'' then
        order_newest_first created_at
          (remdups
             [s. s \<leftarrow> screenshots d, m \<leftarrow> screenshot_metadata d,
                 screenshot_id m = sid s \<and>
                 (case m_ai_keywords m of
                    None \<Rightarrow> False
                  | Some kw \<Rightarrow> sql_like d (or_else (contentType rules) []) kw)])
      else [])"

section \<open>The search handler (search-screenshots)\<close>

text \<open>The first loop of the merge: a semantic result whose screenshot is in the
  database is set in the result map under its id, with its score.\<close>

fun add_semantic ::
  "db \<Rightarrow> SearchResult list \<Rightarrow> (string \<times> DbSearchResult) list \<Rightarrow> (string \<times> DbSearchResult) list" where
  "add_semantic d [] resultMap = resultMap"
| "add_semantic d (r # rs) resultMap =
     add_semantic d rs
       (case getScreenshot d (sr_id r) of
          None \<Rightarrow> resultMap
        | Some s \<Rightarrow>
            map_set (sr_id r)
              \<lparr>screenshot = s,
               result_metadata = getMetadata d (sr_id r),
               tags = Some (getTagsForScreenshot d (sr_id r)),
               folders = Some (getFoldersForScreenshot d (sr_id r)),
               relevance_score = Some (score r)\<rparr>
              resultMap)"

text \<open>The second loop: a text result is set only when its id is not in the map.\<close>

fun add_text ::
  "DbSearchResult list \<Rightarrow> (string \<times> DbSearchResult) list \<Rightarrow> (string \<times> DbSearchResult) list" where
  "add_text [] resultMap = resultMap"
| "add_text (r # rs) resultMap =
     add_text rs
       (if map_has (sid (screenshot r)) resultMap then resultMap
        else map_set (sid (screenshot r)) r resultMap)"

text \<open>
  The handler, for a service that is there or not (\<open>None\<close>). The accessors of the
  database do not throw in this model, so the \<^verbatim>\<open>catch\<close> blocks of the handler are
  reached only from \<^verbatim>\<open>searchByText\<close>. The limit is 50 when the caller gives none.
\<close>

definition search_screenshots ::
  "env \<Rightarrow> store option \<Rightarrow> db \<Rightarrow> string \<Rightarrow> nat option
   \<Rightarrow> DbSearchResult list \<times> store option" where
  "search_screenshots w embeddingService d query given =
     (let limit = (case given of None \<Rightarrow> 50 | Some l \<Rightarrow> l);
          textResults = searchScreenshots d query limit
      in (case embeddingService of
            None \<Rightarrow> (textResults, None)
          | Some st \<Rightarrow>
              (case searchByText w st query limit of
                 (Inl semanticError, st') \<Rightarrow> (textResults, Some st')
               | (Inr semanticResults, st') \<Rightarrow>
                   (slice0 limit
                      (map snd (add_text textResults (add_semantic d semanticResults []))),
                    Some st'))))"

text \<open>An entry of the result map that the first loop of the merge has set: it is
  filed under the id of its screenshot and carries the score of a semantic result
  with that id.\<close>

definition semantic_entry :: "SearchResult list \<Rightarrow> string \<times> DbSearchResult \<Rightarrow> bool" where
  "semantic_entry sem ke =
     (sid (screenshot (snd ke)) = fst ke \<and>
      (\<exists>r\<in>set sem. sr_id r = fst ke \<and> relevance_score (snd ke) = Some (score r)))"

section \<open>Properties of cosineSimilarity\<close>

lemma cosine_loop_sums:
  "length a = length b \<Longrightarrow>
   cosine_loop a b (d, na, nb) =
     (d + sum_list (map2 (*) a b), na + sum_list (map (\<lambda>x. x * x) a), nb + sum_list (map (\<lambda>x. x * x) b))"
  by (induction a b arbitrary: d na nb rule: list_induct2) (simp_all add: add.assoc)

lemma sum_squares_nonneg: "0 \<le> sum_list (map (\<lambda>x::real. x * x) a)"
  by (induction a) simp_all

lemma sum_squares_zero_iff: "sum_list (map (\<lambda>x::real. x * x) a) = 0 \<longleftrightarrow> (\<forall>x\<in>set a. x = 0)"
proof (induction a)
  case Nil
  show ?case by simp
next
  case (Cons x xs)
  have "0 \<le> x * x" by simp
  with sum_squares_nonneg [of xs] Cons show ?case
    by (auto simp: add_nonneg_eq_0_iff)
qed

lemma dot_zero_left: "length a = length b \<Longrightarrow> \<forall>x\<in>set a. x = 0 \<Longrightarrow> sum_list (map2 (*) a b) = (0::real)"
  by (induction a b rule: list_induct2) simp_all

lemma dot_zero_right: "length a = length b \<Longrightarrow> \<forall>y\<in>set b. y = 0 \<Longrightarrow> sum_list (map2 (*) a b) = (0::real)"
  by (induction a b rule: list_induct2) simp_all

lemma dot_self: "sum_list (map2 (*) a a) = sum_list (map (\<lambda>x::real. x * x) a)"
  by (induction a) simp_all

lemma cosineSimilarity_eq:
  "length a = length b \<Longrightarrow>
   cosineSimilarity a b =
     Inr (js_div (sum_list (map2 (*) a b))
            (sqrt (sum_list (map (\<lambda>x. x * x) a)) * sqrt (sum_list (map (\<lambda>x. x * x) b))))"
  by (simp add: cosineSimilarity_def cosine_loop_sums)

lemma cosineSimilarity_zero:
  assumes "length a = length b" and "(\<forall>x\<in>set a. x = 0) \<or> (\<forall>y\<in>set b. y = 0)"
  shows "cosineSimilarity a b = Inr NaN"
proof -
  from assms have "sum_list (map2 (*) a b) = 0"
    using dot_zero_left dot_zero_right by blast
  moreover from assms(2) have "sqrt (sum_list (map (\<lambda>x. x * x) a)) * sqrt (sum_list (map (\<lambda>x. x * x) b)) = 0"
    using sum_squares_zero_iff by auto
  ultimately show ?thesis using assms(1) by (simp add: cosineSimilarity_eq js_div_def)
qed

lemma cosineSimilarity_self_one:
  assumes "cosineSimilarity a a = Inr (Num 1)"
  shows "\<exists>x\<in>set a. x \<noteq> 0"
proof (rule ccontr)
  assume "\<not> (\<exists>x\<in>set a. x \<noteq> 0)"
  then have "cosineSimilarity a a = Inr NaN" by (simp add: cosineSimilarity_zero)
  with assms show False by simp
qed

section \<open>Properties of the sort\<close>

lemma set_insert_sorted: "set (insert_sorted cmp x ys) = insert x (set ys)"
  by (induction ys) auto

lemma length_insert_sorted: "length (insert_sorted cmp x ys) = Suc (length ys)"
  by (induction ys) simp_all

lemma set_array_sort: "set (array_sort cmp xs) = set xs"
  by (induction xs) (simp_all add: array_sort_def set_insert_sorted)

lemma length_array_sort: "length (array_sort cmp xs) = length xs"
  by (induction xs) (simp_all add: array_sort_def length_insert_sorted)

lemma sorted_insert_sorted:
  assumes "\<forall>r\<in>set (x # ys). \<exists>c. score r = Num c"
    and "sorted_wrt (\<lambda>a b. js_ge (score a) (score b)) ys"
  shows "sorted_wrt (\<lambda>a b. js_ge (score a) (score b)) (insert_sorted by_score x ys)"
  using assms
proof (induction ys)
  case Nil
  show ?case by simp
next
  case (Cons y ys)
  obtain cx where cx: "score x = Num cx" using Cons.prems(1) by auto
  obtain cy where cy: "score y = Num cy" using Cons.prems(1) by auto
  show ?case
  proof (cases "cmp_positive (by_score x y)")
    case True
    then have "js_ge (score y) (score x)" by (simp add: by_score_def cx cy)
    moreover have "sorted_wrt (\<lambda>a b. js_ge (score a) (score b)) (insert_sorted by_score x ys)"
      using Cons by simp
    ultimately show ?thesis using True Cons.prems(2) by (auto simp: set_insert_sorted)
  next
    case False
    then have xy: "cy \<le> cx" by (simp add: by_score_def cx cy)
    have "js_ge (score x) (score z)" if "z \<in> set ys" for z
    proof -
      from Cons.prems(1) that have "\<exists>c. score z = Num c" by simp
      then obtain cz where cz: "score z = Num cz" by blast
      have "js_ge (score y) (score z)" using Cons.prems(2) that by simp
      then show ?thesis using xy by (simp add: cx cy cz)
    qed
    then show ?thesis using False Cons.prems(2) xy by (simp add: cx cy)
  qed
qed

lemma sorted_array_sort:
  "\<forall>r\<in>set xs. \<exists>c. score r = Num c \<Longrightarrow>
   sorted_wrt (\<lambda>a b. js_ge (score a) (score b)) (array_sort by_score xs)"
proof (induction xs)
  case Nil
  show ?case by (simp add: array_sort_def)
next
  case (Cons x xs)
  have "sorted_wrt (\<lambda>a b. js_ge (score a) (score b)) (insert_sorted by_score x (array_sort by_score xs))"
    using Cons by (intro sorted_insert_sorted) (auto simp: set_array_sort)
  then show ?case by (simp add: array_sort_def)
qed

section \<open>Properties of the embedding store\<close>

lemma createEmbedding_store:
  "createEmbedding w st txt = (r, st') \<Longrightarrow>
   items st' = items st \<and> metadataFile st' = metadataFile st \<and> apiKey st' = apiKey st"
  by (auto simp: createEmbedding_def Let_def split: if_splits response.splits option.splits list.splits)

lemma score_items_sound:
  "score_items q its = Inr rs \<Longrightarrow> r \<in> set rs \<Longrightarrow>
   \<exists>e. (sr_id r, item r) \<in> set its \<and> embedding (item r) = Some e \<and> cosineSimilarity q e = Inr (score r)"
proof (induction its arbitrary: rs)
  case Nil
  then show ?case by simp
next
  case (Cons kv its)
  obtain k it where kv: "kv = (k, it)" by (cases kv)
  show ?case
  proof (cases "embedding it")
    case None
    with Cons kv show ?thesis by auto
  next
    case (Some e)
    with Cons.prems kv obtain s rs' where s: "cosineSimilarity q e = Inr s"
      and rs': "score_items q its = Inr rs'" and rs: "rs = \<lparr>sr_id = k, score = s, item = it\<rparr> # rs'"
      by (auto split: sum.splits)
    show ?thesis
    proof (cases "r \<in> set rs'")
      case True
      with Cons.IH [OF rs'] show ?thesis by auto
    next
      case False
      with Cons.prems(2) rs have "r = \<lparr>sr_id = k, score = s, item = it\<rparr>" by simp
      with s Some kv show ?thesis by simp
    qed
  qed
qed

lemma score_items_length: "score_items q its = Inr rs \<Longrightarrow> length rs \<le> length its"
proof (induction its arbitrary: rs)
  case Nil
  then show ?case by simp
next
  case (Cons kv its)
  obtain k it where kv: "kv = (k, it)" by (cases kv)
  show ?case
  proof (cases "embedding it")
    case None
    with Cons.prems kv have "score_items q its = Inr rs" by simp
    from Cons.IH [OF this] show ?thesis by simp
  next
    case (Some e)
    with Cons.prems kv obtain rs' where rs': "score_items q its = Inr rs'" and "length rs = Suc (length rs')"
      by (auto split: sum.splits)
    with Cons.IH [OF rs'] show ?thesis by simp
  qed
qed

lemma score_items_complete:
  assumes "\<forall>kv\<in>set its. \<forall>e. embedding (snd kv) = Some e \<longrightarrow> length e = length q"
  shows "\<exists>rs. score_items q its = Inr rs \<and>
     (\<forall>kv\<in>set its. \<forall>e s. embedding (snd kv) = Some e \<longrightarrow> cosineSimilarity q e = Inr s \<longrightarrow>
        (\<exists>r\<in>set rs. sr_id r = fst kv \<and> score r = s))"
  using assms
proof (induction its)
  case Nil
  show ?case by simp
next
  case (Cons kv its)
  obtain k it where kv: "kv = (k, it)" by (cases kv)
  from Cons obtain rs where rs: "score_items q its = Inr rs"
    and all: "\<forall>kv\<in>set its. \<forall>e s. embedding (snd kv) = Some e \<longrightarrow> cosineSimilarity q e = Inr s \<longrightarrow>
        (\<exists>r\<in>set rs. sr_id r = fst kv \<and> score r = s)"
    by auto
  show ?case
  proof (cases "embedding it")
    case None
    with rs all kv show ?thesis by auto
  next
    case (Some e)
    with Cons.prems kv have len: "length q = length e" by auto
    then obtain s where s: "cosineSimilarity q e = Inr s" by (auto simp: cosineSimilarity_eq)
    with rs all kv Some show ?thesis by auto
  qed
qed

lemma searchByText_cases:
  "(\<exists>st'. searchByText w st query k = (Inr [], st')) \<or>
   (\<exists>q st' results. items st \<noteq> [] \<and> createEmbedding w st query = (Inr q, st') \<and>
      score_items q (items st) = Inr results \<and>
      searchByText w st query k = (Inr (slice0 k (array_sort by_score results)), st'))"
proof (cases "items st = []")
  case True
  then show ?thesis by (simp add: searchByText_def)
next
  case False
  obtain r st' where ce: "createEmbedding w st query = (r, st')" by (cases "createEmbedding w st query")
  then have it: "items st' = items st" using createEmbedding_store by blast
  show ?thesis
  proof (cases r)
    case (Inl e)
    with ce False show ?thesis by (simp add: searchByText_def)
  next
    case (Inr q)
    with ce False it show ?thesis
      by (cases "score_items q (items st)") (simp_all add: searchByText_def)
  qed
qed

lemma searchByText_length: "fst (searchByText w st query k) = Inr rs \<Longrightarrow> length rs \<le> k"
  using searchByText_cases [of w st query k] by (auto simp: slice0_def)

text \<open>The score of a result is the cosine similarity of the embedding of the query
  and the vector stored under the id of the result.\<close>

lemma searchByText_scores:
  assumes "fst (searchByText w st query k) = Inr rs" and "r \<in> set rs"
  shows "\<exists>q st' v. createEmbedding w st query = (Inr q, st') \<and>
           (sr_id r, item r) \<in> set (items st) \<and> embedding (item r) = Some v \<and>
           cosineSimilarity q v = Inr (score r)"
proof -
  consider (empty) st' where "searchByText w st query k = (Inr [], st')"
    | (scored) q st' results where "createEmbedding w st query = (Inr q, st')"
        "score_items q (items st) = Inr results"
        "searchByText w st query k = (Inr (slice0 k (array_sort by_score results)), st')"
    using searchByText_cases [of w st query k] by blast
  then show ?thesis
  proof cases
    case empty
    with assms show ?thesis by simp
  next
    case scored
    with assms have "r \<in> set (take k (array_sort by_score results))"
      by (simp add: slice0_def)
    then have "r \<in> set results" by (auto dest: in_set_takeD simp: set_array_sort)
    from score_items_sound [OF scored(2) this] scored(1) show ?thesis by blast
  qed
qed

lemma generateComprehensiveDescription_store:
  "generateComprehensiveDescription w st p md = (c, st') \<Longrightarrow>
   items st' = items st \<and> metadataFile st' = metadataFile st \<and> apiKey st' = apiKey st"
  by (auto simp: generateComprehensiveDescription_def Let_def split: if_splits sum.splits)

section \<open>Claims about cosineSimilarity\<close>

text \<open>
  C2. For vectors of different lengths \<^verbatim>\<open>cosineSimilarity\<close> throws
  ``Vectors must have the same length'': it returns no number, whatever the
  entries are.
\<close>

theorem cosineSimilarity_length_mismatch:
  "length a \<noteq> length b \<Longrightarrow>
   cosineSimilarity a b = Inl (Error ''Vectors must have the same length'') \<and>
   (\<forall>v. cosineSimilarity a b \<noteq> Inr v)"
  by (simp add: cosineSimilarity_def)

text \<open>C2 at the vectors \<open>[1, 2]\<close> and \<open>[1]\<close>.\<close>

theorem cosineSimilarity_length_mismatch_witness:
  "length [1::real, 2] \<noteq> length [1::real] \<and>
   cosineSimilarity [1, 2] [1] = Inl (Error ''Vectors must have the same length'') \<and>
   (\<forall>v. cosineSimilarity [1, 2] [1] \<noteq> Inr v)"
  using cosineSimilarity_length_mismatch [of "[1, 2]" "[1]"] by simp

text \<open>
  C10. The division in \<^verbatim>\<open>cosineSimilarity\<close> is not guarded. For vectors of the same
  length of which one is all zero the result is NaN, not an error; the similarity
  of a vector with itself is 1 only when the vector has a nonzero entry; and a
  stored zero vector of the dimension of the query embedding yields a result with
  score NaN in \<^verbatim>\<open>searchByText\<close> (for a \<open>k\<close> that does not cut the results).
\<close>

theorem cosineSimilarity_zero_norm_nan:
  "(length a = length b \<and> ((\<forall>x\<in>set a. x = 0) \<or> (\<forall>y\<in>set b. y = 0))
      \<longrightarrow> cosineSimilarity a b = Inr NaN) \<and>
   (cosineSimilarity a a = Inr (Num 1) \<longrightarrow> (\<exists>x\<in>set a. x \<noteq> 0)) \<and>
   (createEmbedding w st query = (Inr q, st') \<and>
    (\<forall>kv\<in>set (items st). \<forall>e. embedding (snd kv) = Some e \<longrightarrow> length e = length q) \<and>
    (key, it) \<in> set (items st) \<and> embedding it = Some z \<and> (\<forall>x\<in>set z. x = 0) \<and>
    length (items st) \<le> k
      \<longrightarrow> (\<exists>rs. fst (searchByText w st query k) = Inr rs \<and>
                (\<exists>r\<in>set rs. sr_id r = key \<and> score r = NaN)))"
proof (intro conjI impI)
  assume "length a = length b \<and> ((\<forall>x\<in>set a. x = 0) \<or> (\<forall>y\<in>set b. y = 0))"
  then show "cosineSimilarity a b = Inr NaN" by (simp add: cosineSimilarity_zero)
next
  assume "cosineSimilarity a a = Inr (Num 1)"
  then show "\<exists>x\<in>set a. x \<noteq> 0" by (rule cosineSimilarity_self_one)
next
  assume h: "createEmbedding w st query = (Inr q, st') \<and>
    (\<forall>kv\<in>set (items st). \<forall>e. embedding (snd kv) = Some e \<longrightarrow> length e = length q) \<and>
    (key, it) \<in> set (items st) \<and> embedding it = Some z \<and> (\<forall>x\<in>set z. x = 0) \<and>
    length (items st) \<le> k"
  then have ne: "items st \<noteq> []" by auto
  from h have it': "items st' = items st" using createEmbedding_store by blast
  from h score_items_complete [of "items st" q] obtain rs where
    rs: "score_items q (items st) = Inr rs"
    and all: "\<forall>kv\<in>set (items st). \<forall>e s. embedding (snd kv) = Some e \<longrightarrow>
        cosineSimilarity q e = Inr s \<longrightarrow> (\<exists>r\<in>set rs. sr_id r = fst kv \<and> score r = s)"
    by blast
  from h have "length z = length q" by fastforce
  with h have "cosineSimilarity q z = Inr NaN" by (simp add: cosineSimilarity_zero)
  with all h obtain r where r: "r \<in> set rs" "sr_id r = key" "score r = NaN" by fastforce
  have "length rs \<le> k" using score_items_length [OF rs] h by simp
  then have "slice0 k (array_sort by_score rs) = array_sort by_score rs"
    by (simp add: slice0_def length_array_sort)
  with h ne it' rs have "fst (searchByText w st query k) = Inr (array_sort by_score rs)"
    by (simp add: searchByText_def)
  with r show "\<exists>rs. fst (searchByText w st query k) = Inr rs \<and>
      (\<exists>r\<in>set rs. sr_id r = key \<and> score r = NaN)"
    by (auto simp: set_array_sort)
qed

text \<open>
  C10 at the vectors \<open>[0, 0]\<close> and \<open>[1, 0]\<close>, and at a store that holds the
  zero vector under the id \<open>z\<close>, where the query embeds to \<open>[1, 0]\<close>. The
  similarity of \<open>[1, 0]\<close> with itself is 1, that of \<open>[0, 0]\<close> with itself is not.
\<close>

theorem cosineSimilarity_zero_norm_nan_witness:
  "cosineSimilarity [0, 0] [1, 0] = Inr NaN \<and>
   cosineSimilarity [1, 0] [1, 0] = Inr (Num 1) \<and>
   cosineSimilarity [0, 0] [0, 0] \<noteq> Inr (Num 1) \<and>
   (\<exists>rs. fst (searchByText (offline\<lparr>fetch := (\<lambda>t. Body (Some [Some [1, 0]]))\<rparr>)
             \<lparr>items = [(''z'', \<lparr>item_id = ''z'', path = ''z.png'', itype = ImageItem,
                                 metadata = None, embedding = Some [0, 0], content = None\<rparr>)],
              metadataFile = None, apiKey = ''key'', calls = []\<rparr> ''q'' 10) = Inr rs \<and>
         (\<exists>r\<in>set rs. sr_id r = ''z'' \<and> score r = NaN))"
proof -
  let ?w = "offline\<lparr>fetch := (\<lambda>t. Body (Some [Some [1, 0]]))\<rparr>"
  let ?it = "\<lparr>item_id = ''z'', path = ''z.png'', itype = ImageItem,
              metadata = None, embedding = Some [0, 0], content = None\<rparr>"
  let ?st = "\<lparr>items = [(''z'', ?it)], metadataFile = None, apiKey = ''key'', calls = []\<rparr>"
  have ce: "createEmbedding ?w ?st ''q'' =
      (Inr [1, 0], ?st\<lparr>calls := [CallEmbeddings ''q'']\<rparr>)"
    by (simp add: createEmbedding_def trim_def is_space_def offline_def Let_def)
  have a: "cosineSimilarity [0, 0] [1, 0] = Inr NaN"
    using cosineSimilarity_zero_norm_nan [of "[0, 0]" "[1, 0]"] by simp
  have b: "cosineSimilarity [1, 0] [1, 0] = Inr (Num 1)"
    by (simp add: cosineSimilarity_def js_div_def)
  have c: "cosineSimilarity [0, 0] [0, 0] \<noteq> Inr (Num 1)"
    using cosineSimilarity_zero_norm_nan [of "[0, 0]" "[0, 0]"] by simp
  have d: "\<exists>rs. fst (searchByText ?w ?st ''q'' 10) = Inr rs \<and>
      (\<exists>r\<in>set rs. sr_id r = ''z'' \<and> score r = NaN)"
    using cosineSimilarity_zero_norm_nan
      [of "[]" "[]" ?w ?st "''q''" "[1, 0]" "?st\<lparr>calls := [CallEmbeddings ''q'']\<rparr>" "''z''" ?it "[0, 0]" 10]
      ce by simp
  from a b c d show ?thesis by blast
qed

section \<open>Claims about searchByText\<close>

text \<open>
  C1. \<^verbatim>\<open>searchByText(query, k)\<close> is to return at most \<open>k\<close> entries in descending
  order of score. The code fails the order where a score is NaN. The store holds
  \<open>[0, 1]\<close>, the zero vector and \<open>[1, 0]\<close>, in this order, and the query embeds
  to \<open>[1, 0]\<close>. The scores are 0, NaN and 1; the comparator returns NaN for both
  pairs with the middle entry, the sort moves nothing, and the entry with score 0
  is returned in front of the entry with score 1.
\<close>

theorem searchByText_nan_unsorted:
  "fst (searchByText (offline\<lparr>fetch := (\<lambda>t. Body (Some [Some [1, 0]]))\<rparr>)
     \<lparr>items =
        [(''x'', \<lparr>item_id = ''x'', path = ''x.png'', itype = ImageItem, metadata = None,
                  embedding = Some [0, 1], content = None\<rparr>),
         (''z'', \<lparr>item_id = ''z'', path = ''z.png'', itype = ImageItem, metadata = None,
                  embedding = Some [0, 0], content = None\<rparr>),
         (''y'', \<lparr>item_id = ''y'', path = ''y.png'', itype = ImageItem, metadata = None,
                  embedding = Some [1, 0], content = None\<rparr>)],
      metadataFile = None, apiKey = ''key'', calls = []\<rparr>
     ''q'' 10)
   = Inr [\<lparr>sr_id = ''x'', score = Num 0,
           item = \<lparr>item_id = ''x'', path = ''x.png'', itype = ImageItem, metadata = None,
                  embedding = Some [0, 1], content = None\<rparr>\<rparr>,
          \<lparr>sr_id = ''z'', score = NaN,
           item = \<lparr>item_id = ''z'', path = ''z.png'', itype = ImageItem, metadata = None,
                  embedding = Some [0, 0], content = None\<rparr>\<rparr>,
          \<lparr>sr_id = ''y'', score = Num 1,
           item = \<lparr>item_id = ''y'', path = ''y.png'', itype = ImageItem, metadata = None,
                  embedding = Some [1, 0], content = None\<rparr>\<rparr>]
   \<and> \<not> sorted_by_score_desc
        [\<lparr>sr_id = ''x'', score = Num 0,
           item = \<lparr>item_id = ''x'', path = ''x.png'', itype = ImageItem, metadata = None,
                  embedding = Some [0, 1], content = None\<rparr>\<rparr>,
          \<lparr>sr_id = ''z'', score = NaN,
           item = \<lparr>item_id = ''z'', path = ''z.png'', itype = ImageItem, metadata = None,
                  embedding = Some [0, 0], content = None\<rparr>\<rparr>,
          \<lparr>sr_id = ''y'', score = Num 1,
           item = \<lparr>item_id = ''y'', path = ''y.png'', itype = ImageItem, metadata = None,
                  embedding = Some [1, 0], content = None\<rparr>\<rparr>]
   \<and> \<not> js_ge (Num 0) (Num 1)"
  by (simp add: searchByText_def createEmbedding_def trim_def is_space_def offline_def Let_def
      cosineSimilarity_def js_div_def array_sort_def by_score_def slice0_def
      sorted_by_score_desc_def)

text \<open>
  C5, as the code has it. \<^verbatim>\<open>searchByText\<close> never throws: an error of the embedding
  call is caught and logged inside the method, and the caller receives the empty
  array.
\<close>

theorem searchByText_swallows_embedding_failure:
  "(\<exists>rs. fst (searchByText w st query k) = Inr rs) \<and>
   (fst (createEmbedding w st query) = Inl err \<longrightarrow> fst (searchByText w st query k) = Inr [])"
proof -
  have "\<exists>rs. fst (searchByText w st query k) = Inr rs"
    using searchByText_cases [of w st query k] by auto
  moreover have "fst (searchByText w st query k) = Inr []"
    if "fst (createEmbedding w st query) = Inl err"
    using searchByText_cases [of w st query k] that by auto
  ultimately show ?thesis by blast
qed

text \<open>C5 as amended, at a store with one record and a request that fails.\<close>

theorem searchByText_swallows_embedding_failure_witness:
  "fst (createEmbedding offline
          \<lparr>items = [(''y'', \<lparr>item_id = ''y'', path = ''y.png'', itype = ImageItem,
                              metadata = None, embedding = Some [1, 0], content = None\<rparr>)],
           metadataFile = None, apiKey = ''key'', calls = []\<rparr> ''q'')
     = Inl (Error ''fetch failed'') \<and>
   fst (searchByText offline
          \<lparr>items = [(''y'', \<lparr>item_id = ''y'', path = ''y.png'', itype = ImageItem,
                              metadata = None, embedding = Some [1, 0], content = None\<rparr>)],
           metadataFile = None, apiKey = ''key'', calls = []\<rparr> ''q'' 10)
     = Inr []"
proof -
  let ?st = "\<lparr>items = [(''y'', \<lparr>item_id = ''y'', path = ''y.png'', itype = ImageItem,
                              metadata = None, embedding = Some [1, 0], content = None\<rparr>)],
           metadataFile = None, apiKey = ''key'', calls = []\<rparr>"
  have h: "fst (createEmbedding offline ?st ''q'') = Inl (Error ''fetch failed'')"
    by (simp add: createEmbedding_def trim_def is_space_def offline_def Let_def)
  from searchByText_swallows_embedding_failure [of offline ?st "''q''" 10 "Error ''fetch failed''"] h
  show ?thesis by simp
qed

text \<open>
  C5 as stated fails: with a record in the store and a request that fails, the
  embedding call throws ``fetch failed'' and \<^verbatim>\<open>searchByText\<close> returns the empty array
  instead of throwing.
\<close>

theorem searchByText_embedding_failure_not_raised:
  "fst (createEmbedding offline
          \<lparr>items = [(''y'', \<lparr>item_id = ''y'', path = ''y.png'', itype = ImageItem,
                              metadata = None, embedding = Some [1, 0], content = None\<rparr>)],
           metadataFile = None, apiKey = ''key'', calls = []\<rparr> ''q'')
     = Inl (Error ''fetch failed'') \<and>
   fst (searchByText offline
          \<lparr>items = [(''y'', \<lparr>item_id = ''y'', path = ''y.png'', itype = ImageItem,
                              metadata = None, embedding = Some [1, 0], content = None\<rparr>)],
           metadataFile = None, apiKey = ''key'', calls = []\<rparr> ''q'' 10)
     \<noteq> Inl (Error ''fetch failed'')"
  by (simp add: searchByText_def createEmbedding_def trim_def is_space_def offline_def Let_def)

section \<open>Claims about addImage and persistence\<close>

lemma save_persists: "save w st = (Inr u, st') \<Longrightarrow> metadataFile st' = Some (items st')"
  by (auto simp: save_def split: option.splits)

text \<open>The two mutating calls that save: after a successful \<^verbatim>\<open>addImage\<close> of a new id,
  and after a purge that removed a record while the file system works, the
  metadata file holds the map.\<close>

lemma addImage_persists:
  assumes "\<not> map_has ident (items st)" and "addImage w st ident imagePath md = (Inr u, st')"
  shows "metadataFile st' = Some (items st')"
proof -
  obtain resolved st1 where g: "generateComprehensiveDescription w st imagePath md = (resolved, st1)"
    by (cases "generateComprehensiveDescription w st imagePath md")
  obtain r st2 where c: "createEmbedding w st1 resolved = (r, st2)"
    by (cases "createEmbedding w st1 resolved")
  from assms g c obtain stx where "save w stx = (Inr u, st')"
    by (auto simp: addImage_def split: if_splits sum.splits)
  then show ?thesis by (rule save_persists)
qed

lemma purgeStaleEmbeddings_persists:
  assumes "writeFails w = None" and "0 < snd (purge_loop w (items st) (items st, 0))"
  shows "metadataFile (snd (purgeStaleEmbeddings w st)) =
         Some (items (snd (purgeStaleEmbeddings w st)))"
  using assms by (cases "purge_loop w (items st) (items st, 0)") (simp add: purgeStaleEmbeddings_def save_def)

text \<open>
  C9. \<^verbatim>\<open>addImage\<close> for an id that has a record returns at once: the store comes
  back as it was, with its map, its file and the list of the remote calls made.
\<close>

theorem addImage_idempotent:
  "map_has ident (items st) \<Longrightarrow> addImage w st ident imagePath md = (Inr (), st)"
  by (simp add: addImage_def)

text \<open>C9 at a store that has a record for \<open>a\<close>, and an environment in which a
  description and an embedding would be there to fetch.\<close>

theorem addImage_idempotent_witness:
  "map_has ''a''
     [(''a'', \<lparr>item_id = ''a'', path = ''a.png'', itype = ImageItem, metadata = None,
               embedding = Some [1, 0], content = Some ''A''\<rparr>)] \<and>
   addImage (offline\<lparr>readFileSync := (\<lambda>p. Inr ''png''),
                     GenerateComprehensiveDescription := (\<lambda>i t ti kw. Inr (Some ''new'')),
                     fetch := (\<lambda>t. Body (Some [Some [0, 1]]))\<rparr>)
     \<lparr>items = [(''a'', \<lparr>item_id = ''a'', path = ''a.png'', itype = ImageItem, metadata = None,
                         embedding = Some [1, 0], content = Some ''A''\<rparr>)],
      metadataFile = None, apiKey = ''key'', calls = []\<rparr>
     ''a'' ''a.png'' None
   = (Inr (),
      \<lparr>items = [(''a'', \<lparr>item_id = ''a'', path = ''a.png'', itype = ImageItem, metadata = None,
                         embedding = Some [1, 0], content = Some ''A''\<rparr>)],
       metadataFile = None, apiKey = ''key'', calls = []\<rparr>)"
proof -
  let ?st = "\<lparr>items = [(''a'', \<lparr>item_id = ''a'', path = ''a.png'', itype = ImageItem, metadata = None,
                         embedding = Some [1, 0], content = Some ''A''\<rparr>)],
      metadataFile = None, apiKey = ''key'', calls = []\<rparr>"
  have h: "map_has ''a'' (items ?st)" by (simp add: map_has_def)
  from addImage_idempotent [OF h] h show ?thesis by simp
qed

text \<open>
  C8. When \<^verbatim>\<open>addImage\<close> goes on to embed (the id has no record) and the resolved
  text is empty or blank, or the embedding call throws, or it yields the empty
  vector, then \<^verbatim>\<open>addImage\<close> throws and the map and the file are as before.
\<close>

theorem addImage_failure_leaves_store:
  assumes "\<not> map_has ident (items st)"
    and "generateComprehensiveDescription w st imagePath md = (resolved, st1)"
    and "trim resolved = [] \<or> (\<exists>err. fst (createEmbedding w st1 resolved) = Inl err) \<or>
         fst (createEmbedding w st1 resolved) = Inr []"
  shows "(\<exists>err. fst (addImage w st ident imagePath md) = Inl err) \<and>
         items (snd (addImage w st ident imagePath md)) = items st \<and>
         metadataFile (snd (addImage w st ident imagePath md)) = metadataFile st"
proof -
  from assms(2) have s1: "items st1 = items st" "metadataFile st1 = metadataFile st"
    using generateComprehensiveDescription_store by blast+
  show ?thesis
  proof (cases "resolved = [] \<or> trim resolved = []")
    case True
    with assms(1,2) s1 show ?thesis by (simp add: addImage_def)
  next
    case False
    obtain r st2 where ce: "createEmbedding w st1 resolved = (r, st2)"
      by (cases "createEmbedding w st1 resolved")
    then have s2: "items st2 = items st1" "metadataFile st2 = metadataFile st1"
      using createEmbedding_store by blast+
    from False assms(3) ce have "(\<exists>err. r = Inl err) \<or> r = Inr []" by auto
    then show ?thesis
    proof
      assume "\<exists>err. r = Inl err"
      then obtain err where "r = Inl err" by blast
      with False assms(1,2) ce s1 s2 show ?thesis by (simp add: addImage_def)
    next
      assume "r = Inr []"
      with False assms(1,2) ce s1 s2 show ?thesis by (simp add: addImage_def)
    qed
  qed
qed

text \<open>
  C8 at a store with one record, persisted, and a new id \<open>b\<close>: the image cannot
  be read, the text falls back to ``Screenshot'', and the embedding request
  fails.
\<close>

theorem addImage_failure_leaves_store_witness:
  "\<not> map_has ''b''
       [(''a'', \<lparr>item_id = ''a'', path = ''a.png'', itype = ImageItem, metadata = None,
                 embedding = Some [1, 0], content = Some ''A''\<rparr>)] \<and>
   fst (createEmbedding offline
          \<lparr>items = [(''a'', \<lparr>item_id = ''a'', path = ''a.png'', itype = ImageItem,
                              metadata = None, embedding = Some [1, 0], content = Some ''A''\<rparr>)],
           metadataFile = Some [(''a'', \<lparr>item_id = ''a'', path = ''a.png'', itype = ImageItem,
                              metadata = None, embedding = Some [1, 0], content = Some ''A''\<rparr>)],
           apiKey = ''key'', calls = []\<rparr> ''Screenshot'') = Inl (Error ''fetch failed'') \<and>
   fst (addImage offline
          \<lparr>items = [(''a'', \<lparr>item_id = ''a'', path = ''a.png'', itype = ImageItem,
                              metadata = None, embedding = Some [1, 0], content = Some ''A''\<rparr>)],
           metadataFile = Some [(''a'', \<lparr>item_id = ''a'', path = ''a.png'', itype = ImageItem,
                              metadata = None, embedding = Some [1, 0], content = Some ''A''\<rparr>)],
           apiKey = ''key'', calls = []\<rparr> ''b'' ''b.png'' None) = Inl (Error ''fetch failed'') \<and>
   items (snd (addImage offline
          \<lparr>items = [(''a'', \<lparr>item_id = ''a'', path = ''a.png'', itype = ImageItem,
                              metadata = None, embedding = Some [1, 0], content = Some ''A''\<rparr>)],
           metadataFile = Some [(''a'', \<lparr>item_id = ''a'', path = ''a.png'', itype = ImageItem,
                              metadata = None, embedding = Some [1, 0], content = Some ''A''\<rparr>)],
           apiKey = ''key'', calls = []\<rparr> ''b'' ''b.png'' None))
     = [(''a'', \<lparr>item_id = ''a'', path = ''a.png'', itype = ImageItem,
                 metadata = None, embedding = Some [1, 0], content = Some ''A''\<rparr>)] \<and>
   metadataFile (snd (addImage offline
          \<lparr>items = [(''a'', \<lparr>item_id = ''a'', path = ''a.png'', itype = ImageItem,
                              metadata = None, embedding = Some [1, 0], content = Some ''A''\<rparr>)],
           metadataFile = Some [(''a'', \<lparr>item_id = ''a'', path = ''a.png'', itype = ImageItem,
                              metadata = None, embedding = Some [1, 0], content = Some ''A''\<rparr>)],
           apiKey = ''key'', calls = []\<rparr> ''b'' ''b.png'' None))
     = Some [(''a'', \<lparr>item_id = ''a'', path = ''a.png'', itype = ImageItem,
                      metadata = None, embedding = Some [1, 0], content = Some ''A''\<rparr>)]"
proof -
  let ?a = "(''a'', \<lparr>item_id = ''a'', path = ''a.png'', itype = ImageItem,
                     metadata = None, embedding = Some [1, 0], content = Some ''A''\<rparr>)"
  let ?st = "\<lparr>items = [?a], metadataFile = Some [?a], apiKey = ''key'', calls = []\<rparr>"
  have h1: "\<not> map_has ''b'' (items ?st)" by (simp add: map_has_def)
  have h2: "generateComprehensiveDescription offline ?st ''b.png'' None = (''Screenshot'', ?st)"
    by (simp add: generateComprehensiveDescription_def opt_member_def fallback_caught_def offline_def)
  have h3: "fst (createEmbedding offline ?st ''Screenshot'') = Inl (Error ''fetch failed'')"
    by (simp add: createEmbedding_def trim_def is_space_def offline_def Let_def)
  then have h3': "trim ''Screenshot'' = [] \<or>
      (\<exists>err. fst (createEmbedding offline ?st ''Screenshot'') = Inl err) \<or>
      fst (createEmbedding offline ?st ''Screenshot'') = Inr []" by simp
  have r: "fst (addImage offline ?st ''b'' ''b.png'' None) = Inl (Error ''fetch failed'')"
    by (simp add: addImage_def map_has_def generateComprehensiveDescription_def opt_member_def
        fallback_caught_def createEmbedding_def trim_def is_space_def offline_def Let_def)
  from addImage_failure_leaves_store [OF h1 h2 h3'] h1 h3 r show ?thesis by simp
qed

text \<open>
  C6 fails on \<^verbatim>\<open>removeItem\<close>, which deletes from the map and does not save. The
  store holds one record, \<open>a\<close>, and its file holds the same. After
  \<^verbatim>\<open>removeItem('a')\<close> the map is empty and the file is as before, so a service
  started on that file has the record for \<open>a\<close> again.
\<close>

theorem removeItem_not_persisted:
  "items (removeItem
      \<lparr>items = [(''a'', \<lparr>item_id = ''a'', path = ''a.png'', itype = ImageItem, metadata = None,
                         embedding = Some [1, 0], content = Some ''A''\<rparr>)],
       metadataFile = Some [(''a'', \<lparr>item_id = ''a'', path = ''a.png'', itype = ImageItem,
                         metadata = None, embedding = Some [1, 0], content = Some ''A''\<rparr>)],
       apiKey = ''key'', calls = []\<rparr> ''a'') = [] \<and>
   metadataFile (removeItem
      \<lparr>items = [(''a'', \<lparr>item_id = ''a'', path = ''a.png'', itype = ImageItem, metadata = None,
                         embedding = Some [1, 0], content = Some ''A''\<rparr>)],
       metadataFile = Some [(''a'', \<lparr>item_id = ''a'', path = ''a.png'', itype = ImageItem,
                         metadata = None, embedding = Some [1, 0], content = Some ''A''\<rparr>)],
       apiKey = ''key'', calls = []\<rparr> ''a'')
     = Some [(''a'', \<lparr>item_id = ''a'', path = ''a.png'', itype = ImageItem, metadata = None,
                      embedding = Some [1, 0], content = Some ''A''\<rparr>)] \<and>
   map_has ''a'' (items (restart (removeItem
      \<lparr>items = [(''a'', \<lparr>item_id = ''a'', path = ''a.png'', itype = ImageItem, metadata = None,
                         embedding = Some [1, 0], content = Some ''A''\<rparr>)],
       metadataFile = Some [(''a'', \<lparr>item_id = ''a'', path = ''a.png'', itype = ImageItem,
                         metadata = None, embedding = Some [1, 0], content = Some ''A''\<rparr>)],
       apiKey = ''key'', calls = []\<rparr> ''a'')))"
  by (simp add: restart_def removeItem_def loadExistingData_def map_delete_def map_has_def
      object_entries_def array_index_def is_digit_def)

section \<open>Claims about the pipeline\<close>

text \<open>
  C4. When the image is read and the OCR stage yields the empty result, text
  \<^verbatim>\<open>""\<close> with confidence 0, the pipeline returns a result in which only the OCR
  text and the confidence are set, and the OCR stage is the only stage it
  invoked.
\<close>

theorem doProcessScreenshot_empty_ocr:
  "readFileSync w imagePath = Inr img \<Longrightarrow> extractText w img = \<lparr>ocr = [], confidence = 0\<rparr> \<Longrightarrow>
   doProcessScreenshot w imagePath =
     (Inr \<lparr>ocr_text = Some [], ai_title = None, ai_description = None, ai_keywords = None,
           confidence_score = Some 0, content_type = None, app_detected = None,
           url_detected = None, comprehensive_description = None\<rparr>, [OCR])"
  by (simp add: doProcessScreenshot_def Let_def)

text \<open>
  C4 at an image that can be read, in an environment where the OCR call throws
  and every later call would answer.
\<close>

theorem doProcessScreenshot_empty_ocr_witness:
  "readFileSync (offline\<lparr>readFileSync := (\<lambda>p. Inr ''png''),
                         GenerateScreenshotTitle := (\<lambda>i t. Inr (Some ''T'')),
                         AnalyzeScreenshotContentDetailed := (\<lambda>i t. Inr (Some ''D''))\<rparr>) ''a.png''
     = Inr ''png'' \<and>
   extractText (offline\<lparr>readFileSync := (\<lambda>p. Inr ''png''),
                        GenerateScreenshotTitle := (\<lambda>i t. Inr (Some ''T'')),
                        AnalyzeScreenshotContentDetailed := (\<lambda>i t. Inr (Some ''D''))\<rparr>) ''png''
     = \<lparr>ocr = [], confidence = 0\<rparr> \<and>
   doProcessScreenshot (offline\<lparr>readFileSync := (\<lambda>p. Inr ''png''),
                               GenerateScreenshotTitle := (\<lambda>i t. Inr (Some ''T'')),
                               AnalyzeScreenshotContentDetailed := (\<lambda>i t. Inr (Some ''D''))\<rparr>)
     ''a.png'' =
     (Inr \<lparr>ocr_text = Some [], ai_title = None, ai_description = None, ai_keywords = None,
           confidence_score = Some 0, content_type = None, app_detected = None,
           url_detected = None, comprehensive_description = None\<rparr>, [OCR])"
proof -
  let ?w = "offline\<lparr>readFileSync := (\<lambda>p. Inr ''png''),
                    GenerateScreenshotTitle := (\<lambda>i t. Inr (Some ''T'')),
                    AnalyzeScreenshotContentDetailed := (\<lambda>i t. Inr (Some ''D''))\<rparr>"
  have r: "readFileSync ?w ''a.png'' = Inr ''png''" by (simp add: offline_def)
  have e: "extractText ?w ''png'' = \<lparr>ocr = [], confidence = 0\<rparr>"
    by (simp add: offline_def extractText_def)
  from doProcessScreenshot_empty_ocr [OF r e] r e show ?thesis by simp
qed

section \<open>Claims about smart folders\<close>

lemma sorted_newest_first:
  "sorted_wrt (\<lambda>a b. created b \<le> created a) (order_newest_first created rows)"
proof -
  have "sorted (map (\<lambda>r. - created r) (sort_key (\<lambda>r. - created r) rows))"
    by (rule sorted_sort_key)
  then show ?thesis by (simp add: order_newest_first_def sorted_map)
qed

lemma mset_newest_first: "mset (order_newest_first created rows) = mset rows"
  by (simp add: order_newest_first_def)

text \<open>
  C7, as the code has it. For a rule of type \<open>recent\<close> the number of days is
  \<^verbatim>\<open>rules.days || 7\<close>, so a missing number and 0 are read as 7. The evaluation
  returns exactly the screenshots created strictly after \<open>now\<close> minus that number
  of days, in milliseconds, newest first.
\<close>

theorem recent_folder_strictly_after:
  "rule_type rules = Some ''recent'' \<Longrightarrow>
   mset (getScreenshotsForSmartFolder d now rules) =
     mset (filter (\<lambda>s. created_at s > now - num_or (days rules) 7 * 86400 * 1000)
             (screenshots d)) \<and>
   sorted_wrt (\<lambda>a b. created_at b \<le> created_at a) (getScreenshotsForSmartFolder d now rules)"
  by (simp add: getScreenshotsForSmartFolder_def Let_def mset_newest_first sorted_newest_first)

text \<open>
  C7 as amended, at three screenshots: one of 8 days ago, one of two hours ago
  and one of an hour ago. The time is \<open>10\<^sup>9\<close> ms. The rule of 7 days returns the
  last two, newest first, and so does the rule of 0 days.
\<close>

theorem recent_folder_strictly_after_witness:
  "rule_type \<lparr>rule_type = Some ''recent'', days = Some 7, tagId = None, startDate = None,
              endDate = None, contentType = None\<rparr> = Some ''recent'' \<and>
   num_or (days \<lparr>rule_type = Some ''recent'', days = Some 7, tagId = None, startDate = None,
                 endDate = None, contentType = None\<rparr>) 7 = 7 \<and>
   getScreenshotsForSmartFolder
     (no_rows\<lparr>screenshots :=
        [\<lparr>sid = ''old'', filepath = ''old.png'', filename = ''old.png'',
          created_at = 1000000000 - 8 * 86400 * 1000, is_favorite = False\<rparr>,
         \<lparr>sid = ''two'', filepath = ''two.png'', filename = ''two.png'',
          created_at = 1000000000 - 7200000, is_favorite = False\<rparr>,
         \<lparr>sid = ''one'', filepath = ''one.png'', filename = ''one.png'',
          created_at = 1000000000 - 3600000, is_favorite = False\<rparr>]\<rparr>)
     1000000000
     \<lparr>rule_type = Some ''recent'', days = Some 7, tagId = None, startDate = None,
      endDate = None, contentType = None\<rparr>
   = [\<lparr>sid = ''one'', filepath = ''one.png'', filename = ''one.png'',
       created_at = 1000000000 - 3600000, is_favorite = False\<rparr>,
      \<lparr>sid = ''two'', filepath = ''two.png'', filename = ''two.png'',
       created_at = 1000000000 - 7200000, is_favorite = False\<rparr>] \<and>
   num_or (days \<lparr>rule_type = Some ''recent'', days = Some 0, tagId = None, startDate = None,
                 endDate = None, contentType = None\<rparr>) 7 = 7 \<and>
   getScreenshotsForSmartFolder
     (no_rows\<lparr>screenshots :=
        [\<lparr>sid = ''old'', filepath = ''old.png'', filename = ''old.png'',
          created_at = 1000000000 - 8 * 86400 * 1000, is_favorite = False\<rparr>,
         \<lparr>sid = ''two'', filepath = ''two.png'', filename = ''two.png'',
          created_at = 1000000000 - 7200000, is_favorite = False\<rparr>,
         \<lparr>sid = ''one'', filepath = ''one.png'', filename = ''one.png'',
          created_at = 1000000000 - 3600000, is_favorite = False\<rparr>]\<rparr>)
     1000000000
     \<lparr>rule_type = Some ''recent'', days = Some 0, tagId = None, startDate = None,
      endDate = None, contentType = None\<rparr>
   = [\<lparr>sid = ''one'', filepath = ''one.png'', filename = ''one.png'',
       created_at = 1000000000 - 3600000, is_favorite = False\<rparr>,
      \<lparr>sid = ''two'', filepath = ''two.png'', filename = ''two.png'',
       created_at = 1000000000 - 7200000, is_favorite = False\<rparr>] \<and>
   sorted_wrt (\<lambda>a b. created_at b \<le> created_at a)
     [\<lparr>sid = ''one'', filepath = ''one.png'', filename = ''one.png'',
       created_at = 1000000000 - 3600000, is_favorite = False\<rparr>,
      \<lparr>sid = ''two'', filepath = ''two.png'', filename = ''two.png'',
       created_at = 1000000000 - 7200000, is_favorite = False\<rparr>]"
proof -
  let ?seven = "\<lparr>rule_type = Some ''recent'', days = Some 7, tagId = None, startDate = None,
                 endDate = None, contentType = None\<rparr>"
  let ?zero = "\<lparr>rule_type = Some ''recent'', days = Some 0, tagId = None, startDate = None,
                endDate = None, contentType = None\<rparr>"
  let ?one = "\<lparr>sid = ''one'', filepath = ''one.png'', filename = ''one.png'',
               created_at = 1000000000 - 3600000, is_favorite = False\<rparr>"
  let ?two = "\<lparr>sid = ''two'', filepath = ''two.png'', filename = ''two.png'',
               created_at = 1000000000 - 7200000, is_favorite = False\<rparr>"
  let ?d = "no_rows\<lparr>screenshots :=
        [\<lparr>sid = ''old'', filepath = ''old.png'', filename = ''old.png'',
          created_at = 1000000000 - 8 * 86400 * 1000, is_favorite = False\<rparr>, ?two, ?one]\<rparr>"
  have h7: "rule_type ?seven = Some ''recent''" by simp
  have n7: "num_or (days ?seven) 7 = 7" by (simp add: num_or_def)
  have n0: "num_or (days ?zero) 7 = 7" by (simp add: num_or_def)
  have r7: "getScreenshotsForSmartFolder ?d 1000000000 ?seven = [?one, ?two]"
    by (simp add: getScreenshotsForSmartFolder_def num_or_def order_newest_first_def no_rows_def)
  have r0: "getScreenshotsForSmartFolder ?d 1000000000 ?zero = [?one, ?two]"
    by (simp add: getScreenshotsForSmartFolder_def num_or_def order_newest_first_def no_rows_def)
  from recent_folder_strictly_after [OF h7, of ?d 1000000000]
  have "sorted_wrt (\<lambda>a b. created_at b \<le> created_at a) [?one, ?two]"
    unfolding r7 by simp
  with h7 n7 r7 n0 r0 show ?thesis by simp
qed

text \<open>
  C7 as stated fails in two places. At the boundary: the screenshot \<open>a\<close> was
  created exactly 7 days before \<open>now\<close>, so its time is \<open>\<ge> now - 7 * 86400 s\<close>,
  and the folder of the last 7 days does not contain it, since the query compares
  with \<^verbatim>\<open>created_at > ?\<close>. At 0 days: the screenshot \<open>b\<close> was created an hour
  before \<open>now\<close>, so its time is not \<open>\<ge> now - 0 * 86400 s\<close>, and the folder of
  0 days contains it, since 0 days are read as 7.
\<close>

theorem recent_folder_boundary_excluded:
  "created_at \<lparr>sid = ''a'', filepath = ''a.png'', filename = ''a.png'',
               created_at = 1000000000 - 7 * 86400 * 1000, is_favorite = False\<rparr>
     \<ge> 1000000000 - 7 * 86400 * 1000 \<and>
   getScreenshotsForSmartFolder
     (no_rows\<lparr>screenshots :=
        [\<lparr>sid = ''a'', filepath = ''a.png'', filename = ''a.png'',
          created_at = 1000000000 - 7 * 86400 * 1000, is_favorite = False\<rparr>]\<rparr>)
     1000000000
     \<lparr>rule_type = Some ''recent'', days = Some 7, tagId = None, startDate = None,
      endDate = None, contentType = None\<rparr>
   = [] \<and>
   \<not> created_at \<lparr>sid = ''b'', filepath = ''b.png'', filename = ''b.png'',
                 created_at = 1000000000 - 3600000, is_favorite = False\<rparr>
       \<ge> 1000000000 - 0 * 86400 * 1000 \<and>
   getScreenshotsForSmartFolder
     (no_rows\<lparr>screenshots :=
        [\<lparr>sid = ''b'', filepath = ''b.png'', filename = ''b.png'',
          created_at = 1000000000 - 3600000, is_favorite = False\<rparr>]\<rparr>)
     1000000000
     \<lparr>rule_type = Some ''recent'', days = Some 0, tagId = None, startDate = None,
      endDate = None, contentType = None\<rparr>
   = [\<lparr>sid = ''b'', filepath = ''b.png'', filename = ''b.png'',
       created_at = 1000000000 - 3600000, is_favorite = False\<rparr>]"
  by (simp add: getScreenshotsForSmartFolder_def num_or_def order_newest_first_def no_rows_def)

section \<open>Claims about the search handler\<close>

lemma map_set_absent: "\<not> map_has k m \<Longrightarrow> map_set k v m = m @ [(k, v)]"
  by (induction k v m rule: map_set.induct) (auto simp: map_has_def)

lemma map_set_keys: "map_has k m \<Longrightarrow> map fst (map_set k v m) = map fst m"
  by (induction k v m rule: map_set.induct) (auto simp: map_has_def)

lemma set_map_set: "set (map_set k v m) \<subseteq> insert (k, v) (set m)"
  by (induction k v m rule: map_set.induct) auto

lemma map_set_has: "map_has k' (map_set k v m) \<longleftrightarrow> k' = k \<or> map_has k' m"
  by (induction k v m rule: map_set.induct) (auto simp: map_has_def)

lemma distinct_map_set: "distinct (map fst m) \<Longrightarrow> distinct (map fst (map_set k v m))"
  by (cases "map_has k m") (auto simp: map_set_keys map_set_absent map_has_def)

lemma length_map_set: "length (map_set k v m) \<le> Suc (length m)"
  by (induction k v m rule: map_set.induct) auto

lemma getScreenshot_sid: "getScreenshot d i = Some s \<Longrightarrow> sid s = i \<and> s \<in> set (screenshots d)"
  by (auto simp: getScreenshot_def find_Some_iff)

lemma getScreenshot_found: "s \<in> set (screenshots d) \<Longrightarrow> \<exists>s'. getScreenshot d (sid s) = Some s'"
  by (cases "getScreenshot d (sid s)") (auto simp: getScreenshot_def find_None_iff)

text \<open>The first loop keeps the keys of the map distinct and sets semantic entries only.\<close>

lemma add_semantic_inv:
  "set rs \<subseteq> set sem \<Longrightarrow> distinct (map fst m) \<Longrightarrow> \<forall>ke\<in>set m. semantic_entry sem ke \<Longrightarrow>
   distinct (map fst (add_semantic d rs m)) \<and>
   (\<forall>ke\<in>set (add_semantic d rs m). semantic_entry sem ke)"
proof (induction rs arbitrary: m)
  case Nil
  then show ?case by simp
next
  case (Cons r rs)
  show ?case
  proof (cases "getScreenshot d (sr_id r)")
    case None
    with Cons show ?thesis by simp
  next
    case (Some s)
    let ?e = "\<lparr>screenshot = s, result_metadata = getMetadata d (sr_id r),
               tags = Some (getTagsForScreenshot d (sr_id r)),
               folders = Some (getFoldersForScreenshot d (sr_id r)),
               relevance_score = Some (score r)\<rparr>"
    let ?m = "map_set (sr_id r) ?e m"
    have "semantic_entry sem (sr_id r, ?e)"
      using Some Cons.prems(1) getScreenshot_sid by (auto simp: semantic_entry_def)
    then have "\<forall>ke\<in>set ?m. semantic_entry sem ke"
      using Cons.prems(3) set_map_set [of "sr_id r" ?e m] by auto
    moreover have "distinct (map fst ?m)" using Cons.prems(2) by (rule distinct_map_set)
    moreover have "set rs \<subseteq> set sem" using Cons.prems(1) by simp
    ultimately have "distinct (map fst (add_semantic d rs ?m)) \<and>
        (\<forall>ke\<in>set (add_semantic d rs ?m). semantic_entry sem ke)"
      by (intro Cons.IH)
    with Some show ?thesis by simp
  qed
qed

lemma add_semantic_length: "length (add_semantic d rs m) \<le> length m + length rs"
proof (induction rs arbitrary: m)
  case Nil
  then show ?case by simp
next
  case (Cons r rs)
  show ?case
  proof (cases "getScreenshot d (sr_id r)")
    case None
    with Cons [of m] show ?thesis by simp
  next
    case (Some s)
    let ?e = "\<lparr>screenshot = s, result_metadata = getMetadata d (sr_id r),
               tags = Some (getTagsForScreenshot d (sr_id r)),
               folders = Some (getFoldersForScreenshot d (sr_id r)),
               relevance_score = Some (score r)\<rparr>"
    have "length (add_semantic d rs (map_set (sr_id r) ?e m))
        \<le> length (map_set (sr_id r) ?e m) + length rs"
      by (rule Cons)
    with length_map_set [of "sr_id r" ?e m] Some show ?thesis by simp
  qed
qed

lemma add_semantic_mono: "map_has k m \<Longrightarrow> map_has k (add_semantic d rs m)"
  by (induction rs arbitrary: m) (auto simp: map_set_has split: option.splits)

lemma add_semantic_has:
  "r \<in> set rs \<Longrightarrow> getScreenshot d (sr_id r) = Some s \<Longrightarrow> map_has (sr_id r) (add_semantic d rs m)"
proof (induction rs arbitrary: m)
  case Nil
  then show ?case by simp
next
  case (Cons x rs)
  show ?case
  proof (cases "x = r")
    case True
    with Cons.prems(2) show ?thesis by (simp add: add_semantic_mono map_set_has)
  next
    case False
    with Cons show ?thesis by simp
  qed
qed

text \<open>The second loop appends: the entries it adds come from the text results, are
  filed under the id of their screenshot, and their keys are new.\<close>

lemma add_text_append:
  "distinct (map fst m) \<Longrightarrow>
   \<exists>L. add_text rs m = m @ L \<and> distinct (map fst (m @ L)) \<and>
       (\<forall>ke\<in>set L. snd ke \<in> set rs \<and> sid (screenshot (snd ke)) = fst ke)"
proof (induction rs arbitrary: m)
  case Nil
  then show ?case by simp
next
  case (Cons r rs)
  show ?case
  proof (cases "map_has (sid (screenshot r)) m")
    case True
    from Cons.IH [OF Cons.prems] obtain L where
      "add_text rs m = m @ L" "distinct (map fst (m @ L))"
      "\<forall>ke\<in>set L. snd ke \<in> set rs \<and> sid (screenshot (snd ke)) = fst ke" by blast
    with True show ?thesis by auto
  next
    case False
    let ?m = "m @ [(sid (screenshot r), r)]"
    have ms: "map_set (sid (screenshot r)) r m = ?m" using False by (rule map_set_absent)
    have "distinct (map fst ?m)" using Cons.prems False by (auto simp: map_has_def)
    from Cons.IH [OF this] obtain L where
      L: "add_text rs ?m = ?m @ L" "distinct (map fst (?m @ L))"
      "\<forall>ke\<in>set L. snd ke \<in> set rs \<and> sid (screenshot (snd ke)) = fst ke" by blast
    have "add_text (r # rs) m = m @ ((sid (screenshot r), r) # L)" using False ms L(1) by simp
    moreover have "distinct (map fst (m @ ((sid (screenshot r), r) # L)))" using L(2) by simp
    moreover have "\<forall>ke\<in>set ((sid (screenshot r), r) # L).
        snd ke \<in> set (r # rs) \<and> sid (screenshot (snd ke)) = fst ke"
      using L(3) by auto
    ultimately show ?thesis by blast
  qed
qed

text \<open>A text result is a row of the \<^verbatim>\<open>screenshots\<close> table.\<close>

lemma searchScreenshots_rows:
  "e \<in> set (searchScreenshots d query limit) \<Longrightarrow> screenshot e \<in> set (screenshots d)"
  by (auto simp: searchScreenshots_def Let_def order_newest_first_def to_result_def
      split: prod.splits dest!: in_set_takeD)

lemma filter_key_absent: "y \<notin> f ` set xs \<Longrightarrow> filter (\<lambda>x. f x = y) xs = []"
  by (induction xs) auto

lemma filter_distinct_key:
  "distinct (map f xs) \<Longrightarrow> e \<in> set xs \<Longrightarrow> filter (\<lambda>x. f x = f e) xs = [e]"
proof (induction xs)
  case Nil
  then show ?case by simp
next
  case (Cons x xs)
  show ?case
  proof (cases "x = e")
    case True
    with Cons.prems(1) have "f e \<notin> f ` set xs" by simp
    then have "filter (\<lambda>x. f x = f e) xs = []" by (rule filter_key_absent)
    with True show ?thesis by simp
  next
    case False
    with Cons.prems have "e \<in> set xs" by simp
    with Cons.prems(1) have "f x \<noteq> f e" by auto
    with Cons \<open>e \<in> set xs\<close> show ?thesis by simp
  qed
qed

text \<open>
  C3. With the embedding service there and \<open>sem\<close> the results of the semantic
  search, the handler returns \<open>S @ L\<close>, at most \<open>limit\<close> entries, where: every
  entry of \<open>S\<close> carries the score of a semantic result with its id as relevance
  score, and that score is the cosine similarity of the embedding of the query and
  the vector stored under the id; every semantic result whose screenshot is in the database has its entry
  in \<open>S\<close>; every entry of \<open>L\<close> is a text result; no id occurs twice in \<open>S @ L\<close>;
  and an id hit by both searches has exactly one entry, which is in \<open>S\<close>.
\<close>

theorem search_merge_semantic_first:
  assumes sem: "fst (searchByText w st query limit) = Inr sem"
  shows "\<exists>S L. fst (search_screenshots w (Some st) d query (Some limit)) = S @ L \<and>
      length (S @ L) \<le> limit \<and>
      (\<forall>e\<in>set S. \<exists>r\<in>set sem. sr_id r = sid (screenshot e) \<and>
                               relevance_score e = Some (score r)) \<and>
      (\<forall>e\<in>set S. \<exists>q st' it v sim.
           createEmbedding w st query = (Inr q, st') \<and>
           (sid (screenshot e), it) \<in> set (items st) \<and> embedding it = Some v \<and>
           cosineSimilarity q v = Inr sim \<and> relevance_score e = Some sim) \<and>
      (\<forall>r\<in>set sem. (\<exists>s. getScreenshot d (sr_id r) = Some s) \<longrightarrow>
                    (\<exists>e\<in>set S. sid (screenshot e) = sr_id r)) \<and>
      (\<forall>e\<in>set L. e \<in> set (searchScreenshots d query limit)) \<and>
      distinct (map (\<lambda>e. sid (screenshot e)) (S @ L)) \<and>
      (\<forall>i. i \<in> sr_id ` set sem \<and>
           i \<in> (\<lambda>e. sid (screenshot e)) ` set (searchScreenshots d query limit) \<longrightarrow>
           (\<exists>e\<in>set S. filter (\<lambda>x. sid (screenshot x) = i) (S @ L) = [e]))"
proof -
  let ?lex = "searchScreenshots d query limit"
  let ?M = "add_semantic d sem []"
  have inv: "distinct (map fst ?M)" "\<forall>ke\<in>set ?M. semantic_entry sem ke"
    using add_semantic_inv [of sem sem "[]" d] by simp_all
  have lenM: "length ?M \<le> limit"
    using add_semantic_length [of d sem "[]"] searchByText_length [OF sem] by simp
  from add_text_append [OF inv(1)] obtain L0 where
    L0: "add_text ?lex ?M = ?M @ L0" "distinct (map fst (?M @ L0))"
        "\<forall>ke\<in>set L0. snd ke \<in> set ?lex \<and> sid (screenshot (snd ke)) = fst ke" by blast
  let ?S = "map snd ?M"
  let ?L = "take (limit - length ?M) (map snd L0)"
  obtain st' where sbt: "searchByText w st query limit = (Inr sem, st')"
    using sem by (cases "searchByText w st query limit") simp
  have out: "fst (search_screenshots w (Some st) d query (Some limit)) = ?S @ ?L"
    using sbt L0(1) lenM by (simp add: search_screenshots_def Let_def slice0_def)
  have len: "length (?S @ ?L) \<le> limit" using lenM by simp
  have semS: "\<forall>e\<in>set ?S. \<exists>r\<in>set sem. sr_id r = sid (screenshot e) \<and>
      relevance_score e = Some (score r)"
    using inv(2) by (auto simp: semantic_entry_def)
  have cosS: "\<forall>e\<in>set ?S. \<exists>q st' it v sim.
      createEmbedding w st query = (Inr q, st') \<and>
      (sid (screenshot e), it) \<in> set (items st) \<and> embedding it = Some v \<and>
      cosineSimilarity q v = Inr sim \<and> relevance_score e = Some sim"
  proof
    fix e
    assume "e \<in> set ?S"
    with semS obtain r where r: "r \<in> set sem" "sr_id r = sid (screenshot e)"
      "relevance_score e = Some (score r)" by blast
    from searchByText_scores [OF sem r(1)] obtain q st' v where
      "createEmbedding w st query = (Inr q, st')" "(sr_id r, item r) \<in> set (items st)"
      "embedding (item r) = Some v" "cosineSimilarity q v = Inr (score r)" by blast
    with r(2,3) show "\<exists>q st' it v sim.
      createEmbedding w st query = (Inr q, st') \<and>
      (sid (screenshot e), it) \<in> set (items st) \<and> embedding it = Some v \<and>
      cosineSimilarity q v = Inr sim \<and> relevance_score e = Some sim" by auto
  qed
  have entry: "\<exists>e\<in>set ?S. sid (screenshot e) = i" if "map_has i ?M" for i
  proof -
    from that obtain e where e: "(i, e) \<in> set ?M" by (auto simp: map_has_def)
    with inv(2) have "sid (screenshot e) = i" by (auto simp: semantic_entry_def)
    moreover from e have "e \<in> set ?S" by force
    ultimately show ?thesis by blast
  qed
  have allS: "\<forall>r\<in>set sem. (\<exists>s. getScreenshot d (sr_id r) = Some s) \<longrightarrow>
      (\<exists>e\<in>set ?S. sid (screenshot e) = sr_id r)"
    using add_semantic_has entry by blast
  have lexL: "\<forall>e\<in>set ?L. e \<in> set ?lex" using L0(3) by (auto dest!: in_set_takeD)
  have keys: "map (\<lambda>e. sid (screenshot e)) (map snd (?M @ L0)) = map fst (?M @ L0)"
    using inv(2) L0(3) by (auto simp: semantic_entry_def)
  have "distinct (map (\<lambda>e. sid (screenshot e)) (take limit (map snd (?M @ L0))))"
    using L0(2) keys by (metis distinct_take take_map)
  then have dist: "distinct (map (\<lambda>e. sid (screenshot e)) (?S @ ?L))" using lenM by simp
  have both: "\<exists>e\<in>set ?S. filter (\<lambda>x. sid (screenshot x) = i) (?S @ ?L) = [e]"
    if "i \<in> sr_id ` set sem \<and> i \<in> (\<lambda>e. sid (screenshot e)) ` set ?lex" for i
  proof -
    from that obtain r where r: "r \<in> set sem" "sr_id r = i" by auto
    from that obtain x where x: "x \<in> set ?lex" "sid (screenshot x) = i" by auto
    from x(1) have "screenshot x \<in> set (screenshots d)" by (rule searchScreenshots_rows)
    then obtain s where "getScreenshot d i = Some s" using getScreenshot_found x(2) by blast
    with r have "map_has i ?M" using add_semantic_has by blast
    from entry [OF this] obtain e where e: "e \<in> set ?S" "sid (screenshot e) = i" by blast
    then have "e \<in> set (?S @ ?L)" by simp
    from filter_distinct_key [OF dist this] e show ?thesis by auto
  qed
  from out len semS cosS allS lexL dist both show ?thesis by blast
qed

text \<open>
  C3 at a store with the vector \<open>[1, 1, 1, 1]\<close> for the id \<open>a\<close>, a query that
  embeds to \<open>[1, 0, 0, 0]\<close>, and a database with the screenshots \<open>a\<close> and \<open>b\<close>,
  both named like the query. The cosine similarity is \<open>1 / 2\<close>. The text search
  returns \<open>b\<close> and \<open>a\<close>; the handler returns \<open>a\<close> once, with the relevance score
  \<open>1 / 2\<close>, and then \<open>b\<close>.
\<close>

theorem search_merge_semantic_first_witness:
  "fst (searchByText (offline\<lparr>fetch := (\<lambda>t. Body (Some [Some [1, 0, 0, 0]]))\<rparr>)
         \<lparr>items = [(''a'', \<lparr>item_id = ''a'', path = ''a.png'', itype = ImageItem,
                             metadata = None, embedding = Some [1, 1, 1, 1], content = None\<rparr>)],
          metadataFile = None, apiKey = ''key'', calls = []\<rparr> ''shot'' 5)
     = Inr [\<lparr>sr_id = ''a'', score = Num (1 / 2),
             item = \<lparr>item_id = ''a'', path = ''a.png'', itype = ImageItem,
                     metadata = None, embedding = Some [1, 1, 1, 1], content = None\<rparr>\<rparr>] \<and>
   cosineSimilarity [1, 0, 0, 0] [1, 1, 1, 1] = Inr (Num (1 / 2)) \<and>
   map (\<lambda>e. sid (screenshot e))
     (searchScreenshots
        (no_rows\<lparr>screenshots :=
           [\<lparr>sid = ''a'', filepath = ''a.png'', filename = ''shot'', created_at = 1,
             is_favorite = False\<rparr>,
            \<lparr>sid = ''b'', filepath = ''b.png'', filename = ''shot'', created_at = 2,
             is_favorite = False\<rparr>]\<rparr>) ''shot'' 5)
     = [''b'', ''a''] \<and>
   fst (search_screenshots (offline\<lparr>fetch := (\<lambda>t. Body (Some [Some [1, 0, 0, 0]]))\<rparr>)
         (Some \<lparr>items = [(''a'', \<lparr>item_id = ''a'', path = ''a.png'', itype = ImageItem,
                             metadata = None, embedding = Some [1, 1, 1, 1], content = None\<rparr>)],
                metadataFile = None, apiKey = ''key'', calls = []\<rparr>)
         (no_rows\<lparr>screenshots :=
           [\<lparr>sid = ''a'', filepath = ''a.png'', filename = ''shot'', created_at = 1,
             is_favorite = False\<rparr>,
            \<lparr>sid = ''b'', filepath = ''b.png'', filename = ''shot'', created_at = 2,
             is_favorite = False\<rparr>]\<rparr>) ''shot'' (Some 5))
     = [\<lparr>screenshot = \<lparr>sid = ''a'', filepath = ''a.png'', filename = ''shot'', created_at = 1,
                        is_favorite = False\<rparr>,
         result_metadata = None, tags = Some [], folders = Some [],
         relevance_score = Some (Num (1 / 2))\<rparr>,
        \<lparr>screenshot = \<lparr>sid = ''b'', filepath = ''b.png'', filename = ''shot'', created_at = 2,
                        is_favorite = False\<rparr>,
         result_metadata = None, tags = None, folders = None, relevance_score = None\<rparr>] \<and>
   (\<exists>S L. fst (search_screenshots (offline\<lparr>fetch := (\<lambda>t. Body (Some [Some [1, 0, 0, 0]]))\<rparr>)
         (Some \<lparr>items = [(''a'', \<lparr>item_id = ''a'', path = ''a.png'', itype = ImageItem,
                             metadata = None, embedding = Some [1, 1, 1, 1], content = None\<rparr>)],
                metadataFile = None, apiKey = ''key'', calls = []\<rparr>)
         (no_rows\<lparr>screenshots :=
           [\<lparr>sid = ''a'', filepath = ''a.png'', filename = ''shot'', created_at = 1,
             is_favorite = False\<rparr>,
            \<lparr>sid = ''b'', filepath = ''b.png'', filename = ''shot'', created_at = 2,
             is_favorite = False\<rparr>]\<rparr>) ''shot'' (Some 5)) = S @ L \<and>
      length (S @ L) \<le> 5 \<and>
      (\<exists>e\<in>set S. filter (\<lambda>x. sid (screenshot x) = ''a'') (S @ L) = [e] \<and>
                  relevance_score e = Some (Num (1 / 2))))"
proof -
  let ?w = "offline\<lparr>fetch := (\<lambda>t. Body (Some [Some [1, 0, 0, 0]]))\<rparr>"
  let ?it = "\<lparr>item_id = ''a'', path = ''a.png'', itype = ImageItem,
              metadata = None, embedding = Some [1, 1, 1, 1], content = None\<rparr>"
  let ?st = "\<lparr>items = [(''a'', ?it)], metadataFile = None, apiKey = ''key'', calls = []\<rparr>"
  let ?d = "no_rows\<lparr>screenshots :=
           [\<lparr>sid = ''a'', filepath = ''a.png'', filename = ''shot'', created_at = 1,
             is_favorite = False\<rparr>,
            \<lparr>sid = ''b'', filepath = ''b.png'', filename = ''shot'', created_at = 2,
             is_favorite = False\<rparr>]\<rparr>"
  let ?sem = "[\<lparr>sr_id = ''a'', score = Num (1 / 2), item = ?it\<rparr>]"
  have cos: "cosineSimilarity [1, 0, 0, 0] [1, 1, 1, 1] = Inr (Num (1 / 2))"
    by (simp add: cosineSimilarity_def js_div_def)
  have ce: "createEmbedding ?w ?st ''shot'' =
      (Inr [1, 0, 0, 0], ?st\<lparr>calls := [CallEmbeddings ''shot'']\<rparr>)"
    by (simp add: createEmbedding_def trim_def is_space_def offline_def Let_def)
  have h: "fst (searchByText ?w ?st ''shot'' 5) = Inr ?sem"
    by (simp add: searchByText_def ce cos array_sort_def by_score_def slice0_def)
  have lex: "searchScreenshots ?d ''shot'' 5 =
      [\<lparr>screenshot = \<lparr>sid = ''b'', filepath = ''b.png'', filename = ''shot'', created_at = 2,
                        is_favorite = False\<rparr>,
         result_metadata = None, tags = None, folders = None, relevance_score = None\<rparr>,
       \<lparr>screenshot = \<lparr>sid = ''a'', filepath = ''a.png'', filename = ''shot'', created_at = 1,
                        is_favorite = False\<rparr>,
         result_metadata = None, tags = None, folders = None, relevance_score = None\<rparr>]"
    by (simp add: searchScreenshots_def no_rows_def left_join_def col_like_def to_result_def
        select_columns_def order_newest_first_def Let_def)
  have out: "fst (search_screenshots ?w (Some ?st) ?d ''shot'' (Some 5)) =
      [\<lparr>screenshot = \<lparr>sid = ''a'', filepath = ''a.png'', filename = ''shot'', created_at = 1,
                        is_favorite = False\<rparr>,
         result_metadata = None, tags = Some [], folders = Some [],
         relevance_score = Some (Num (1 / 2))\<rparr>,
        \<lparr>screenshot = \<lparr>sid = ''b'', filepath = ''b.png'', filename = ''shot'', created_at = 2,
                        is_favorite = False\<rparr>,
         result_metadata = None, tags = None, folders = None, relevance_score = None\<rparr>]"
    using h lex
    by (cases "searchByText ?w ?st ''shot'' 5")
       (simp add: search_screenshots_def Let_def slice0_def getScreenshot_def map_has_def
          no_rows_def)
  from search_merge_semantic_first [OF h, of ?d] obtain S L where
    SL: "fst (search_screenshots ?w (Some ?st) ?d ''shot'' (Some 5)) = S @ L"
        "length (S @ L) \<le> 5"
        "\<forall>e\<in>set S. \<exists>r\<in>set ?sem. sr_id r = sid (screenshot e) \<and>
                               relevance_score e = Some (score r)"
        "\<forall>i. i \<in> sr_id ` set ?sem \<and>
           i \<in> (\<lambda>e. sid (screenshot e)) ` set (searchScreenshots ?d ''shot'' 5) \<longrightarrow>
           (\<exists>e\<in>set S. filter (\<lambda>x. sid (screenshot x) = i) (S @ L) = [e])"
    by (elim exE conjE) (rule that; assumption)
  have "''a'' \<in> sr_id ` set ?sem \<and>
      ''a'' \<in> (\<lambda>e. sid (screenshot e)) ` set (searchScreenshots ?d ''shot'' 5)"
    by (simp add: lex)
  with SL(4) obtain e where e: "e \<in> set S" "filter (\<lambda>x. sid (screenshot x) = ''a'') (S @ L) = [e]"
    by blast
  from SL(3) e(1) have "relevance_score e = Some (Num (1 / 2))" by auto
  with e SL(1,2) have ex: "\<exists>S L. fst (search_screenshots ?w (Some ?st) ?d ''shot'' (Some 5)) = S @ L \<and>
      length (S @ L) \<le> 5 \<and>
      (\<exists>e\<in>set S. filter (\<lambda>x. sid (screenshot x) = ''a'') (S @ L) = [e] \<and>
                  relevance_score e = Some (Num (1 / 2)))"
    by (intro exI [of _ S] exI [of _ L] conjI bexI [of _ e])
  have ids: "map (\<lambda>e. sid (screenshot e)) (searchScreenshots ?d ''shot'' 5) = [''b'', ''a'']"
    by (simp add: lex)
  show ?thesis
    by (intro conjI) (rule h, rule cos, rule ids, rule out, rule ex)
qed

end
